theory Spec2Isabelle
  imports Main "HOL-Library.Word"
begin

section \<open>Errors\<close>

text \<open>
  Every exception a modelled function can raise is a value of this type.
  \<open>DatabaseNotInitialized\<close> is the \<open>Error\<close> thrown by \<open>SQLiteService.executeSql\<close>
  when \<open>initDb\<close> has not run. \<open>AuthenticationFailed\<close> is the rejection of
  \<open>crypto.subtle.decrypt\<close> when the AES-GCM tag does not verify, \<open>InvalidKey\<close> the
  rejection of malformed key material (\<open>importKey\<close>, \<open>nacl.box.before\<close>,
  \<open>nacl.box.keyPair.fromSecretKey\<close>). \<open>RangeError\<close> is the exception of a typed array:
  of its constructor for a negative length, of \<open>set\<close> for a source that does not fit.
  \<open>TypeError\<close> is the rejection of \<open>crypto.subtle.decrypt\<close> for an \<open>iv\<close> that is not a
  buffer, and the exception of reading a property of \<open>undefined\<close>. \<open>ReferenceError\<close> is
  the exception of evaluating an identifier that no declaration binds.
  \<open>ConstraintFailed\<close> is the error of a statement that SQLite aborts on a \<open>NOT NULL\<close>
  constraint. \<open>FetchFailed\<close> is a rejected or unsuccessful \<open>fetch\<close>.
\<close>

datatype error =
  DatabaseNotInitialized | AuthenticationFailed | InvalidKey | RangeError | TypeError
  | ReferenceError | ConstraintFailed | FetchFailed

text \<open>Sequencing of two fallible steps: the second runs only when the first returned.\<close>

definition and_then :: "error + 'a \<Rightarrow> ('a \<Rightarrow> error + 'b) \<Rightarrow> error + 'b" where
  "and_then r f = (case r of Inl e \<Rightarrow> Inl e | Inr x \<Rightarrow> f x)"

section \<open>LocalCache: SQLiteService\<close>

text \<open>
  The interfaces \<open>Community\<close> and \<open>CommunityPost\<close>. A field whose name several
  interfaces share, or that clashes with a constant of the logic, carries a suffix:
  \<open>id_c\<close>, \<open>name_c\<close> and \<open>type_c\<close> are \<open>id\<close>, \<open>name\<close> and \<open>type\<close> of a community,
  \<open>id_p\<close> is \<open>id\<close> of a post. The numbers are integers: the flags that the
  interfaces comment as 0 or 1, counts, and times in milliseconds. \<open>NaN\<close>, which SQLite
  stores as \<open>NULL\<close>, is not a value of these records; where the code computes a number
  that can be \<open>NaN\<close> (the timestamp of a missed post, parsed from a string), the model
  branches before the record is built.
\<close>

datatype community_type = Public | Private

record Community =
  id_c :: string
  creator_public_key :: string
  name_c :: string
  type_c :: community_type
  gating_mint :: "string option"
  created_at :: int
  is_member :: int

record CommunityPost =
  id_p :: string
  community_id :: string
  author_public_key :: string
  content :: string
  signature :: string
  timestamp :: int
  likes_count :: int
  reposts_count :: int
  is_liked_by_me :: int
  is_reposted_by_me :: int
  author_name :: "string option"
  is_moderated :: int

text \<open>
  The two tables of \<open>initDb\<close>, each a list of rows in rowid order. The static field
  \<open>SQLiteService.db\<close> is \<open>None\<close> until \<open>initDb\<close> has opened the database.
\<close>

record SQLiteDatabase =
  communities :: "Community list"
  community_posts :: "CommunityPost list"

type_synonym SQLiteService = "SQLiteDatabase option"

text \<open>
  \<open>initDb\<close>: when the field \<open>db\<close> is set it returns at once; otherwise it opens the
  database file and creates the two tables and their indexes where they do not exist.
  \<open>file\<close> is the content of the database file, with no rows in a table that did not
  exist. (A failure of the file system or of the \<open>CREATE\<close> statements is not modelled.)
\<close>

definition initDb :: "SQLiteDatabase \<Rightarrow> SQLiteService \<Rightarrow> SQLiteService" where
  "initDb file db = (case db of Some d \<Rightarrow> Some d | None \<Rightarrow> Some file)"


text \<open>
  With the setting off the clause is inert: an insert into \<open>community_posts\<close> is not
  checked against \<open>communities\<close>, and a community row that a statement deletes (the
  \<open>REPLACE\<close> of \<open>insertCommunity\<close> deletes the row it replaces) takes no post with it.
  The statements of the service are written below as they run with the setting off.
\<close>

text \<open>
  \<open>INSERT OR REPLACE\<close> on a table with primary key \<open>key\<close>: every row that holds the
  new row's key is deleted, then the new row is inserted (with a fresh rowid, so last).
\<close>

definition insert_or_replace :: "('r \<Rightarrow> string) \<Rightarrow> 'r \<Rightarrow> 'r list \<Rightarrow> 'r list" where
  "insert_or_replace key r rows = filter (\<lambda>x. key x \<noteq> key r) rows @ [r]"

text \<open>\<open>UPDATE ... SET ... WHERE id = ?\<close>: the rows holding the key are changed in place.\<close>

definition update_where :: "('r \<Rightarrow> string) \<Rightarrow> string \<Rightarrow> ('r \<Rightarrow> 'r) \<Rightarrow> 'r list \<Rightarrow> 'r list" where
  "update_where key k f rows = map (\<lambda>x. if key x = k then f x else x) rows"

text \<open>\<open>DELETE FROM ... WHERE id = ?\<close>.\<close>

definition delete_where :: "('r \<Rightarrow> string) \<Rightarrow> string \<Rightarrow> 'r list \<Rightarrow> 'r list" where
  "delete_where key k rows = filter (\<lambda>x. key x \<noteq> k) rows"

definition executeSql :: "(SQLiteDatabase \<Rightarrow> SQLiteDatabase) \<Rightarrow> SQLiteService \<Rightarrow> error + SQLiteService" where
  "executeSql stmt db =
     (case db of
        None \<Rightarrow> Inl DatabaseNotInitialized
      | Some d \<Rightarrow> Inr (Some (stmt d)))"

definition insertCommunity :: "Community \<Rightarrow> SQLiteService \<Rightarrow> error + SQLiteService" where
  "insertCommunity community =
     executeSql (\<lambda>d. d\<lparr>communities := insert_or_replace id_c community (communities d)\<rparr>)"

definition updateCommunityMembership :: "string \<Rightarrow> int \<Rightarrow> SQLiteService \<Rightarrow> error + SQLiteService" where
  "updateCommunityMembership communityId isMember =
     executeSql (\<lambda>d. d\<lparr>communities :=
       update_where id_c communityId (\<lambda>c. c\<lparr>is_member := isMember\<rparr>) (communities d)\<rparr>)"

definition insertCommunityPost :: "CommunityPost \<Rightarrow> SQLiteService \<Rightarrow> error + SQLiteService" where
  "insertCommunityPost post =
     executeSql (\<lambda>d. d\<lparr>community_posts := insert_or_replace id_p post (community_posts d)\<rparr>)"

definition updateCommunityPostEngagement ::
  "string \<Rightarrow> int \<Rightarrow> int \<Rightarrow> int \<Rightarrow> int \<Rightarrow> SQLiteService \<Rightarrow> error + SQLiteService" where
  "updateCommunityPostEngagement postId likesCount repostsCount isLikedByMe isRepostedByMe =
     executeSql (\<lambda>d. d\<lparr>community_posts :=
       update_where id_p postId
         (\<lambda>p. p\<lparr>likes_count := likesCount, reposts_count := repostsCount,
                is_liked_by_me := isLikedByMe, is_reposted_by_me := isRepostedByMe\<rparr>)
         (community_posts d)\<rparr>)"

definition updateCommunityPostModeration :: "string \<Rightarrow> int \<Rightarrow> SQLiteService \<Rightarrow> error + SQLiteService" where
  "updateCommunityPostModeration postId isModerated =
     executeSql (\<lambda>d. d\<lparr>community_posts :=
       update_where id_p postId (\<lambda>p. p\<lparr>is_moderated := isModerated\<rparr>) (community_posts d)\<rparr>)"

definition deleteCommunityPost :: "string \<Rightarrow> SQLiteService \<Rightarrow> error + SQLiteService" where
  "deleteCommunityPost postId =
     executeSql (\<lambda>d. d\<lparr>community_posts := delete_where id_p postId (community_posts d)\<rparr>)"


text \<open>
  \<open>getCommunities\<close>: \<open>SELECT * FROM communities ORDER BY created_at DESC\<close>. (SQL leaves
  the order of rows with equal \<open>created_at\<close> open; here the later row comes first.)
\<close>

definition getCommunities :: "SQLiteService \<Rightarrow> error + Community list" where
  "getCommunities db =
     (case db of
        None \<Rightarrow> Inl DatabaseNotInitialized
      | Some d \<Rightarrow> Inr (rev (sort_key created_at (communities d))))"


section \<open>ConnectionManager: SocketService\<close>

text \<open>
  What the service hands to \<open>socket.emit\<close>: the event name with its payload. A chat
  message is an opaque payload; \<open>SendMessage chatId message\<close> stands for
  \<open>emit('send_message', {...message, chatId})\<close>.
\<close>

datatype outbound =
    Authenticate string
  | JoinChat string
  | LeaveChat string
  | SendMessage string string
  | JoinCommunity string
  | LeaveCommunity string
  | SendCommunityPost string CommunityPost
  | Typing string bool

text \<open>
  The socket.io client object as far as the service reads and drives it: the
  \<open>connected\<close> flag, the transports of \<open>io.opts\<close>, and the packets emitted on it.
\<close>

record Socket =
  connected :: bool
  transports :: "string list"
  emitted :: "outbound list"

text \<open>
  The fields of the class. \<open>activeRooms\<close> is a JavaScript \<open>Set\<close>: a duplicate-free
  list in insertion order, the order \<open>forEach\<close> visits.
\<close>

record SocketService =
  socket :: "Socket option"
  userId :: "string option"
  activeRooms :: "string list"
  u_isConnected :: bool
  reconnectAttempts :: nat
  maxReconnectAttempts :: nat
  isPersistent :: bool

definition new_SocketService :: SocketService where
  "new_SocketService =
     \<lparr>socket = None, userId = None, activeRooms = [], u_isConnected = False,
      reconnectAttempts = 0, maxReconnectAttempts = 5, isPersistent = True\<rparr>"

text \<open>\<open>this.socket && this.socket.connected\<close>, the guard of every sending method.\<close>

definition socket_connected :: "SocketService \<Rightarrow> bool" where
  "socket_connected s = (case socket s of None \<Rightarrow> False | Some k \<Rightarrow> connected k)"

definition socket_emit :: "outbound \<Rightarrow> SocketService \<Rightarrow> SocketService" where
  "socket_emit ev s = s\<lparr>socket := map_option (\<lambda>k. k\<lparr>emitted := emitted k @ [ev]\<rparr>) (socket s)\<rparr>"

text \<open>The packets emitted on the current socket.\<close>

definition sent :: "SocketService \<Rightarrow> outbound list" where
  "sent s = (case socket s of None \<Rightarrow> [] | Some k \<Rightarrow> emitted k)"

text \<open>The rooms for which a join request is among the given packets.\<close>

fun join_requests :: "outbound list \<Rightarrow> string list" where
  "join_requests [] = []"
| "join_requests (JoinChat r # evs) = r # join_requests evs"
| "join_requests (JoinCommunity r # evs) = r # join_requests evs"
| "join_requests (ev # evs) = join_requests evs"

definition authenticate :: "string \<Rightarrow> SocketService \<Rightarrow> SocketService" where
  "authenticate uid s =
     (if \<not> socket_connected s then s else socket_emit (Authenticate uid) s)"

definition joinChat :: "string \<Rightarrow> SocketService \<Rightarrow> SocketService" where
  "joinChat chatId s =
     (if \<not> socket_connected s then s
      else if chatId \<in> set (activeRooms s) then s
      else (socket_emit (JoinChat chatId) s)\<lparr>activeRooms := activeRooms s @ [chatId]\<rparr>)"

definition joinChats :: "string list \<Rightarrow> SocketService \<Rightarrow> SocketService" where
  "joinChats chatIds s =
     fold (\<lambda>chatId t. if chatId \<noteq> [] \<and> chatId \<notin> set (activeRooms t) then joinChat chatId t else t)
       chatIds s"

definition leaveChat :: "string \<Rightarrow> SocketService \<Rightarrow> SocketService" where
  "leaveChat chatId s =
     (if \<not> socket_connected s then s
      else if chatId \<notin> set (activeRooms s) then s
      else (socket_emit (LeaveChat chatId) s)\<lparr>activeRooms := removeAll chatId (activeRooms s)\<rparr>)"

definition setPersistentMode :: "bool \<Rightarrow> SocketService \<Rightarrow> SocketService" where
  "setPersistentMode b s = s\<lparr>isPersistent := b\<rparr>"

text \<open>
  The \<open>disconnect\<close> listener of \<open>setupEventListeners\<close>. The second component tells
  whether the two-second timer that calls \<open>initSocket(this.userId)\<close> was set.
\<close>

definition on_disconnect :: "string \<Rightarrow> SocketService \<Rightarrow> SocketService \<times> bool" where
  "on_disconnect reason s =
     (s\<lparr>u_isConnected := False\<rparr>,
      reason \<noteq> ''io client disconnect'' \<and> isPersistent s \<and>
        (case userId s of None \<Rightarrow> False | Some u \<Rightarrow> u \<noteq> []))"

text \<open>
  \<open>socket.disconnect()\<close>: socket.io closes a connected socket and fires its
  \<open>disconnect\<close> listeners with the reason \<open>io client disconnect\<close>; on a socket that is
  not connected nothing is fired.
\<close>

definition socket_disconnect :: "SocketService \<Rightarrow> SocketService" where
  "socket_disconnect s =
     (case socket s of
        None \<Rightarrow> s
      | Some k \<Rightarrow>
          if connected k
          then fst (on_disconnect ''io client disconnect'' (s\<lparr>socket := Some (k\<lparr>connected := False\<rparr>)\<rparr>))
          else s)"

text \<open>
  \<open>initSocket\<close> up to the point where the promise is pending: the early return for a
  live connection of the same user, otherwise the old socket is disconnected and a new
  one is created (\<open>forceNew\<close>), not yet connected, with nothing emitted on it.
\<close>

definition initSocket :: "string \<Rightarrow> SocketService \<Rightarrow> SocketService" where
  "initSocket uid s =
     (if socket s \<noteq> None \<and> u_isConnected s \<and> userId s = Some uid then s
      else (socket_disconnect s)
             \<lparr>socket := Some \<lparr>connected = False, transports = [''websocket'', ''polling''], emitted = []\<rparr>,
              userId := Some uid, reconnectAttempts := 0\<rparr>)"

text \<open>The \<open>connect\<close> listener that \<open>initSocket(uid)\<close> registers.\<close>

definition on_connect :: "string \<Rightarrow> SocketService \<Rightarrow> SocketService" where
  "on_connect uid s =
     (let s1 = authenticate uid s;
          s2 = s1\<lparr>u_isConnected := True\<rparr>
      in if length (activeRooms s2) > 0 then fold joinChat (activeRooms s2) s2 else s2)"

text \<open>The \<open>connect_error\<close> listener, without the timer of its last attempt.\<close>

definition on_connect_error :: "SocketService \<Rightarrow> SocketService" where
  "on_connect_error s =
     (let s1 = s\<lparr>u_isConnected := False, reconnectAttempts := Suc (reconnectAttempts s)\<rparr>
      in if reconnectAttempts s1 \<ge> maxReconnectAttempts s1
         then s1\<lparr>socket := map_option (\<lambda>k. k\<lparr>transports := [''polling'']\<rparr>) (socket s1)\<rparr>
         else s1)"

text \<open>
  The transport events of socket.io: on establishment the socket is connected and the
  \<open>connect\<close> listener runs; on loss the socket is no longer connected and the
  \<open>disconnect\<close> listener runs with the reason of the loss.
\<close>

definition transport_connected :: "string \<Rightarrow> SocketService \<Rightarrow> SocketService" where
  "transport_connected uid s =
     on_connect uid (s\<lparr>socket := map_option (\<lambda>k. k\<lparr>connected := True\<rparr>) (socket s)\<rparr>)"

definition transport_lost :: "string \<Rightarrow> SocketService \<Rightarrow> SocketService \<times> bool" where
  "transport_lost reason s =
     on_disconnect reason (s\<lparr>socket := map_option (\<lambda>k. k\<lparr>connected := False\<rparr>) (socket s)\<rparr>)"

text \<open>The reconnect timer of the \<open>disconnect\<close> listener fires: \<open>initSocket(this.userId)\<close>.\<close>

definition reconnect_timer_fired :: "SocketService \<Rightarrow> SocketService" where
  "reconnect_timer_fired s = (case userId s of None \<Rightarrow> s | Some u \<Rightarrow> initSocket u s)"

text \<open>
  A transport loss followed, when the listener set its timer, by the timer's
  \<open>initSocket\<close> and the establishment of the new socket's transport.
\<close>

definition lose_and_reconnect :: "string \<Rightarrow> SocketService \<Rightarrow> SocketService" where
  "lose_and_reconnect reason s =
     (let (s1, scheduled) = transport_lost reason s
      in if scheduled
         then (let s2 = reconnect_timer_fired s1
               in case userId s2 of None \<Rightarrow> s2 | Some u \<Rightarrow> transport_connected u s2)
         else s1)"

definition pauseConnection :: "SocketService \<Rightarrow> SocketService" where
  "pauseConnection s =
     (if socket s \<noteq> None \<and> u_isConnected s
      then (socket_disconnect (s\<lparr>activeRooms := []\<rparr>))\<lparr>u_isConnected := False\<rparr>
      else s)"

definition resumeConnection :: "string \<Rightarrow> SocketService \<Rightarrow> SocketService" where
  "resumeConnection uid s = initSocket uid s"

definition sendMessage :: "string \<Rightarrow> string \<Rightarrow> SocketService \<Rightarrow> SocketService" where
  "sendMessage chatId message s =
     (if \<not> socket_connected s then s
      else socket_emit (SendMessage chatId message)
             (if chatId \<notin> set (activeRooms s) then joinChat chatId s else s))"

definition joinCommunityFeed :: "string \<Rightarrow> SocketService \<Rightarrow> SocketService" where
  "joinCommunityFeed communityId s =
     (let roomId = ''community_'' @ communityId
      in if \<not> socket_connected s then s
         else if roomId \<in> set (activeRooms s) then s
         else (socket_emit (JoinCommunity roomId) s)\<lparr>activeRooms := activeRooms s @ [roomId]\<rparr>)"

definition leaveCommunityFeed :: "string \<Rightarrow> SocketService \<Rightarrow> SocketService" where
  "leaveCommunityFeed communityId s =
     (let roomId = ''community_'' @ communityId
      in if \<not> socket_connected s then s
         else if roomId \<notin> set (activeRooms s) then s
         else (socket_emit (LeaveCommunity roomId) s)\<lparr>activeRooms := removeAll roomId (activeRooms s)\<rparr>)"

definition sendCommunityPost :: "string \<Rightarrow> CommunityPost \<Rightarrow> SocketService \<Rightarrow> SocketService" where
  "sendCommunityPost communityId post s =
     (if \<not> socket_connected s then s
      else socket_emit (SendCommunityPost (''community_'' @ communityId) post) s)"

definition sendTypingIndicator :: "string \<Rightarrow> bool \<Rightarrow> SocketService \<Rightarrow> SocketService" where
  "sendTypingIndicator chatId isTyping s =
     (if \<not> socket_connected s then s else socket_emit (Typing chatId isTyping) s)"

definition disconnect :: "SocketService \<Rightarrow> SocketService" where
  "disconnect s = (if isPersistent s then s else pauseConnection s)"

subsection \<open>Inbound events\<close>

text \<open>
  A \<open>new_message\<close> payload: a field is \<open>None\<close> when the object does not carry it. A
  string is truthy when it is present and not empty.
\<close>

record InboundMessage =
  id_m :: "string option"
  chat_room_id :: "string option"
  iv_m :: "string option"
  ciphertext_m :: "string option"
  tag_m :: "string option"
  senderPublicKey :: "string option"
  sender_id :: "string option"
  created_at_m :: int

definition truthy :: "string option \<Rightarrow> bool" where
  "truthy x = (case x of None \<Rightarrow> False | Some v \<Rightarrow> v \<noteq> [])"

text \<open>
  The actions the listeners dispatch to the store. \<open>ProcessEncryptedMessage\<close> carries
  \<open>iv\<close>, \<open>ciphertext\<close>, \<open>tag\<close>, \<open>senderPublicKey\<close>, \<open>chatId\<close>, \<open>messageId\<close> and
  \<open>timestamp\<close>; \<open>IncrementUnreadCount\<close> carries \<open>chatId\<close> and \<open>senderId\<close>.
\<close>

datatype action =
    ProcessEncryptedMessage "string option" "string option" "string option" "string option"
      "string option" "string option" int
  | ReceiveMessage InboundMessage
  | IncrementUnreadCount "string option" "string option"

text \<open>
  The \<open>new_message\<close> listener: the actions it dispatches, given \<open>this.userId\<close> and the
  store's \<open>selectedChatId\<close>. A \<open>null\<close> message is \<open>None\<close>.
\<close>

definition on_new_message ::
  "string option \<Rightarrow> string option \<Rightarrow> InboundMessage option \<Rightarrow> action list" where
  "on_new_message uid selectedChatId message =
     (case message of
        None \<Rightarrow> []
      | Some m \<Rightarrow>
          if truthy (id_m m) \<and> truthy (chat_room_id m) then
            if truthy (iv_m m) \<and> truthy (ciphertext_m m) \<and> truthy (tag_m m) \<and> truthy (senderPublicKey m)
            then [ProcessEncryptedMessage (iv_m m) (ciphertext_m m) (tag_m m) (senderPublicKey m)
                    (chat_room_id m) (id_m m) (created_at_m m)]
            else if sender_id m \<noteq> None \<and> sender_id m = uid then []
            else ReceiveMessage m #
                 (if selectedChatId \<noteq> chat_room_id m
                  then [IncrementUnreadCount (chat_room_id m) (sender_id m)] else [])
          else [])"

text \<open>
  The listener of \<open>community_post_received\<close> loads the cache with a dynamic import,
  \<open>import('../shared/services/SQLiteService')\<close>. A relative specifier is resolved
  against the directory of the importing module: \<open>..\<close> drops the last directory,
  \<open>.\<close> keeps it, any other segment is appended.
\<close>

fun resolve_specifier :: "string list \<Rightarrow> string list \<Rightarrow> string list" where
  "resolve_specifier dir [] = dir"
| "resolve_specifier dir (segment # rest) =
     (if segment = ''..'' then resolve_specifier (butlast dir) rest
      else if segment = ''.'' then resolve_specifier dir rest
      else resolve_specifier (dir @ [segment]) rest)"

text \<open>
  \<open>socketService.ts\<close> is in \<open>src/shared/services\<close>, and the module that exports
  \<open>SQLiteService\<close> is \<open>src/shared/services/SQLiteService.ts\<close> (its first line says so,
  and \<open>BackgroundSyncTask.ts\<close> in \<open>src/shared/background\<close> imports it as
  \<open>../services/SQLiteService\<close>). The import yields the module, of which the listener
  uses \<open>insertCommunityPost\<close>, when its specifier resolves to that file; otherwise its
  promise is rejected and the \<open>then\<close> callback of the listener never runs.
\<close>

definition SQLiteService_module :: "string list" where
  "SQLiteService_module = [''src'', ''shared'', ''services'', ''SQLiteService'']"

definition import_SQLiteService ::
  "string list \<Rightarrow> string list \<Rightarrow> (CommunityPost \<Rightarrow> SQLiteService \<Rightarrow> error + SQLiteService) option" where
  "import_SQLiteService dir specifier =
     (if resolve_specifier dir specifier = SQLiteService_module then Some insertCommunityPost
      else None)"

text \<open>
  The \<open>community_post_received\<close> listener: the cache after it, given the store's
  \<open>auth.address\<close>. A failed insert is caught and logged.
\<close>

definition on_community_post_received ::
  "string option \<Rightarrow> CommunityPost option \<Rightarrow> SQLiteService \<Rightarrow> SQLiteService" where
  "on_community_post_received currentUserId post db =
     (case post of
        None \<Rightarrow> db
      | Some p \<Rightarrow>
          if id_p p \<noteq> [] \<and> community_id p \<noteq> [] then
            if Some (author_public_key p) = currentUserId then db
            else
              (case import_SQLiteService [''src'', ''shared'', ''services'']
                      [''..'', ''shared'', ''services'', ''SQLiteService''] of
                 None \<Rightarrow> db
               | Some SQLiteService_insertCommunityPost \<Rightarrow>
                   (case SQLiteService_insertCommunityPost p db of Inl e \<Rightarrow> db | Inr db' \<Rightarrow> db'))
          else db)"

section \<open>CryptoEngine: EncryptionService\<close>

type_synonym bytes = "8 word list"

record BoxKeyPair =
  publicKey :: bytes
  secretKey :: bytes

text \<open>
  tweetnacl is not part of the repository (only its declarations, \<open>tweetnacl.d.ts\<close>),
  so the functions the code calls are parameters. \<open>box_keyPair r\<close> is
  \<open>nacl.box.keyPair()\<close> when the random generator yields \<open>r\<close>;
  \<open>box_keyPair_fromSecretKey\<close> is \<open>nacl.box.keyPair.fromSecretKey\<close>; \<open>box_before pk sk\<close>
  is \<open>nacl.box.before(publicKey, secretKey)\<close>. \<open>util\<close> is the export \<open>util\<close> of the
  module with its two base64 functions, as \<open>tweetnacl.d.ts\<close> declares it; it is \<open>None\<close>
  for a tweetnacl that exports no \<open>util\<close> (the functions were moved to the package
  tweetnacl-util), and its functions may throw.
\<close>

record NaclUtil =
  encodeBase64 :: "bytes \<Rightarrow> error + string"
  decodeBase64 :: "string \<Rightarrow> error + bytes"

record Nacl =
  box_keyPair :: "bytes \<Rightarrow> BoxKeyPair"
  box_keyPair_fromSecretKey :: "bytes \<Rightarrow> error + BoxKeyPair"
  box_before :: "bytes \<Rightarrow> bytes \<Rightarrow> error + bytes"
  util :: "NaclUtil option"

subsection \<open>JavaScript values in decrypt\<close>

text \<open>
  \<open>decrypt\<close> reads \<open>byteLength\<close> of what \<open>decode\<close> returns, adds two such lengths, makes
  a typed array of that length and copies into it with \<open>set\<close>. These steps are defined
  on every JavaScript value, and what they do depends on whether the value is a byte
  array or a string; so the model keeps the two apart. \<open>undefined\<close> is \<open>None\<close>.
\<close>

datatype js_number = Num nat | NaN

datatype js_value = JsBytes bytes | JsString string

text \<open>The property \<open>byteLength\<close>: a typed array has it, a string does not.\<close>

definition byteLength :: "js_value \<Rightarrow> js_number option" where
  "byteLength v = (case v of JsBytes b \<Rightarrow> Some (Num (length b)) | JsString t \<Rightarrow> None)"

text \<open>\<open>x + y\<close> on lengths: the sum of two numbers, and \<open>NaN\<close> when one is \<open>undefined\<close>.\<close>

definition js_plus :: "js_number option \<Rightarrow> js_number option \<Rightarrow> js_number" where
  "js_plus x y =
     (case x of
        Some (Num m) \<Rightarrow> (case y of Some (Num n) \<Rightarrow> Num (m + n) | Some NaN \<Rightarrow> NaN | None \<Rightarrow> NaN)
      | Some NaN \<Rightarrow> NaN
      | None \<Rightarrow> NaN)"

text \<open>\<open>new Uint8Array(length)\<close>: zero-filled; the length \<open>NaN\<close> converts to 0.\<close>

definition new_Uint8Array :: "js_number \<Rightarrow> bytes" where
  "new_Uint8Array n = (case n of Num k \<Rightarrow> replicate k 0 | NaN \<Rightarrow> [])"

text \<open>
  An element of a string source of \<open>set\<close>: the character converted to a number and then
  to a byte, which is the digit for a digit and 0 for every other character.
\<close>

definition string_element :: "char \<Rightarrow> 8 word" where
  "string_element c =
     (let n = (of_char c :: nat) in if 48 \<le> n \<and> n \<le> 57 then of_nat (n - 48) else 0)"

text \<open>
  \<open>target.set(source, offset)\<close>: an \<open>undefined\<close> or \<open>NaN\<close> offset is 0; a source that is
  longer than what is left of the target from the offset raises \<open>RangeError\<close>;
  otherwise its elements overwrite the target from the offset on.
\<close>

definition Uint8Array_set :: "bytes \<Rightarrow> js_value \<Rightarrow> js_number option \<Rightarrow> error + bytes" where
  "Uint8Array_set target source offset =
     (let k = (case offset of Some (Num j) \<Rightarrow> j | Some NaN \<Rightarrow> 0 | None \<Rightarrow> 0);
          elements = (case source of JsBytes b \<Rightarrow> b | JsString t \<Rightarrow> map string_element t)
      in if length elements + k > length target then Inl RangeError
         else Inr (take k target @ elements @ drop (k + length elements) target))"

subsection \<open>The platform and the operations\<close>

text \<open>
  The platform functions of \<open>encrypt\<close> and \<open>decrypt\<close>, parameters as well:
  \<open>crypto.subtle.importKey('raw', ...)\<close>, \<open>crypto.subtle.encrypt\<close> and \<open>decrypt\<close> with
  \<open>AES-GCM\<close> (key, iv, data; the encryption returns the ciphertext followed by the tag),
  \<open>encode\<close> and \<open>decode\<close> of js-base64, and \<open>TextEncoder.encode\<close> and
  \<open>TextDecoder.decode\<close>. \<open>encode\<close> is applied to byte arrays. What \<open>decode\<close> returns is
  left open between a byte array, which is how \<open>decrypt\<close> uses the result, and a
  string, which is what js-base64 declares (\<open>decode: (src: string) => string\<close>).
\<close>

record WebCrypto =
  importKey :: "bytes \<Rightarrow> error + bytes"
  aes_gcm_encrypt :: "bytes \<Rightarrow> bytes \<Rightarrow> bytes \<Rightarrow> bytes"
  aes_gcm_decrypt :: "bytes \<Rightarrow> bytes \<Rightarrow> bytes \<Rightarrow> error + bytes"
  base64_encode :: "bytes \<Rightarrow> string"
  base64_decode :: "string \<Rightarrow> js_value"
  utf8_encode :: "string \<Rightarrow> bytes"
  utf8_decode :: "bytes \<Rightarrow> string"

record EncryptedData =
  iv :: string
  ciphertext :: string
  tag :: string

definition generateX25519KeyPair :: "Nacl \<Rightarrow> bytes \<Rightarrow> BoxKeyPair" where
  "generateX25519KeyPair nacl rnd = box_keyPair nacl rnd"

definition deriveSharedSecret :: "Nacl \<Rightarrow> bytes \<Rightarrow> bytes \<Rightarrow> error + bytes" where
  "deriveSharedSecret nacl seekerPrivateKey recipientPublicKey =
     box_before nacl recipientPublicKey seekerPrivateKey"

text \<open>\<open>encrypt\<close>; \<open>iv0\<close> is what \<open>AES.getRandomBytes(12)\<close> yields in the call.\<close>

definition encrypt :: "WebCrypto \<Rightarrow> bytes \<Rightarrow> bytes \<Rightarrow> string \<Rightarrow> error + EncryptedData" where
  "encrypt env iv0 sharedSecret payload =
     (case importKey env sharedSecret of
        Inl e \<Rightarrow> Inl e
      | Inr key \<Rightarrow>
          let encodedPayload = utf8_encode env payload;
              encrypted = aes_gcm_encrypt env key iv0 encodedPayload;
              tagLength = 16
          in if length encrypted < tagLength then Inl RangeError
             else Inr \<lparr>iv = base64_encode env iv0,
                       ciphertext = base64_encode env (take (length encrypted - tagLength) encrypted),
                       tag = base64_encode env (drop (length encrypted - tagLength) encrypted)\<rparr>)"

text \<open>
  \<open>decrypt\<close>, statement by statement: the three \<open>decode\<close> calls, the buffer
  \<open>fullEncrypted\<close> and the two \<open>set\<close> calls that fill it, \<open>importKey\<close>,
  \<open>crypto.subtle.decrypt\<close> (which takes the iv as a buffer only) and the text decoding.
\<close>

definition decrypt :: "WebCrypto \<Rightarrow> bytes \<Rightarrow> EncryptedData \<Rightarrow> error + string" where
  "decrypt env sharedSecret encryptedData =
     (let iv1 = base64_decode env (iv encryptedData);
          ciphertext1 = base64_decode env (ciphertext encryptedData);
          tag1 = base64_decode env (tag encryptedData);
          fullEncrypted0 = new_Uint8Array (js_plus (byteLength ciphertext1) (byteLength tag1))
      in case Uint8Array_set fullEncrypted0 ciphertext1 (Some (Num 0)) of
           Inl e \<Rightarrow> Inl e
         | Inr fullEncrypted1 \<Rightarrow>
             (case Uint8Array_set fullEncrypted1 tag1 (byteLength ciphertext1) of
                Inl e \<Rightarrow> Inl e
              | Inr fullEncrypted \<Rightarrow>
                  (case importKey env sharedSecret of
                     Inl e \<Rightarrow> Inl e
                   | Inr key \<Rightarrow>
                       (case iv1 of
                          JsString t \<Rightarrow> Inl TypeError
                        | JsBytes ivBytes \<Rightarrow>
                            (case aes_gcm_decrypt env key ivBytes fullEncrypted of
                               Inl e \<Rightarrow> Inl e
                             | Inr decrypted \<Rightarrow> Inr (utf8_decode env decrypted))))))"

text \<open>The placeholder: it returns the public key of a key pair generated on the spot.\<close>

definition fetchRecipientX25519PublicKey :: "Nacl \<Rightarrow> bytes \<Rightarrow> string \<Rightarrow> bytes" where
  "fetchRecipientX25519PublicKey nacl rnd recipientIdentifier =
     publicKey (generateX25519KeyPair nacl rnd)"

subsection \<open>What the code relies on from the libraries\<close>

text \<open>
  \<open>decode\<close> returns byte arrays, the ones \<open>encode\<close> encoded: what \<open>decrypt\<close> expects of
  the codec.
\<close>

definition decode_returns_bytes :: "WebCrypto \<Rightarrow> bool" where
  "decode_returns_bytes env = (\<forall>b. base64_decode env (base64_encode env b) = JsBytes b)"

text \<open>\<open>decode\<close> returns strings: what js-base64 declares of it.\<close>

definition decode_returns_string :: "WebCrypto \<Rightarrow> bool" where
  "decode_returns_string env = (\<forall>t. \<exists>u. base64_decode env t = JsString u)"

text \<open>
  The authentication tag of an envelope does not verify under a shared secret: the
  three fields decode to byte arrays, the secret imports as a key, and AES-GCM
  decryption of the ciphertext followed by the tag is rejected.
\<close>

definition tag_does_not_verify :: "WebCrypto \<Rightarrow> bytes \<Rightarrow> EncryptedData \<Rightarrow> bool" where
  "tag_does_not_verify env sharedSecret e =
     (case importKey env sharedSecret of
        Inl err \<Rightarrow> False
      | Inr key \<Rightarrow>
          (\<exists>ivBytes c t.
             base64_decode env (iv e) = JsBytes ivBytes \<and>
             base64_decode env (ciphertext e) = JsBytes c \<and>
             base64_decode env (tag e) = JsBytes t \<and>
             aes_gcm_decrypt env key ivBytes (c @ t) = Inl AuthenticationFailed))"

text \<open>
  The contract of the encryption platform: a 32-byte secret imports as a key; AES-GCM
  decryption inverts encryption under the same key and iv, and the encryption is the
  plaintext's length plus a 16-byte tag; the text codec decodes what it encoded.
\<close>

definition webcrypto_contract :: "WebCrypto \<Rightarrow> bool" where
  "webcrypto_contract env =
     ((\<forall>raw. length raw = 32 \<longrightarrow> (\<exists>key. importKey env raw = Inr key)) \<and>
      (\<forall>key iv0 p. aes_gcm_decrypt env key iv0 (aes_gcm_encrypt env key iv0 p) = Inr p) \<and>
      (\<forall>key iv0 p. length (aes_gcm_encrypt env key iv0 p) = length p + 16) \<and>
      (\<forall>t. utf8_decode env (utf8_encode env t) = t))"

text \<open>A valid key pair: the pair that its own secret key loads to.\<close>

definition valid_key_pair :: "Nacl \<Rightarrow> BoxKeyPair \<Rightarrow> bool" where
  "valid_key_pair nacl kp = (box_keyPair_fromSecretKey nacl (secretKey kp) = Inr kp)"

text \<open>
  The contract of X25519 key agreement: for two valid key pairs, \<open>box.before\<close> of one
  pair's public key and the other's secret key succeeds and is the same either way.
\<close>

definition x25519_contract :: "Nacl \<Rightarrow> bool" where
  "x25519_contract nacl =
     (\<forall>a b. valid_key_pair nacl a \<and> valid_key_pair nacl b \<longrightarrow>
        (\<exists>k. box_before nacl (publicKey b) (secretKey a) = Inr k \<and>
             box_before nacl (publicKey a) (secretKey b) = Inr k))"

section \<open>KeyStore: the agreement key pair of ConversationScreen\<close>

text \<open>
  \<open>SecureStore\<close> of expo-secure-store: the string stored under each key. (A rejected
  read or write is not modelled.)
\<close>

type_synonym SecureStore = "string \<rightharpoonup> string"

definition SECRET_STORE_KEY_PREFIX :: string where
  "SECRET_STORE_KEY_PREFIX = ''e2ee-keypair-''"

text \<open>
  \<open>ConversationScreen\<close> imports \<open>util\<close> from \<open>'tweetnacl'\<close> and calls
  \<open>util.decodeBase64\<close> and \<open>util.encodeBase64\<close>. Where the module exports no \<open>util\<close> the
  binding is \<open>undefined\<close>, and the call raises \<open>TypeError\<close>.
\<close>

definition util_decodeBase64 :: "Nacl \<Rightarrow> string \<Rightarrow> error + bytes" where
  "util_decodeBase64 nacl b64 =
     (case util nacl of None \<Rightarrow> Inl TypeError | Some u \<Rightarrow> decodeBase64 u b64)"

definition util_encodeBase64 :: "Nacl \<Rightarrow> bytes \<Rightarrow> error + string" where
  "util_encodeBase64 nacl arr =
     (case util nacl of None \<Rightarrow> Inl TypeError | Some u \<Rightarrow> encodeBase64 u arr)"


text \<open>
  \<open>initializeSeekerKeyPair\<close> after \<open>await SecureStore.getItemAsync(keyStoreId)\<close> has
  returned \<open>storedSecretKey\<close>: the key pair handed to \<open>setSeekerX25519KeyPair\<close>, or the
  caught error, and the store. A stored string is loaded when it is truthy, that is,
  not empty. \<open>rnd\<close> is what the random generator yields if a pair is generated; the
  pair is generated before \<open>util.encodeBase64\<close> is called, and nothing is written when
  that call throws.
\<close>

definition loadOrGenerate ::
  "Nacl \<Rightarrow> string \<Rightarrow> string option \<Rightarrow> bytes \<Rightarrow> SecureStore \<Rightarrow> (error + BoxKeyPair) \<times> SecureStore" where
  "loadOrGenerate nacl keyStoreId storedSecretKey rnd store =
     (case storedSecretKey of
        Some b64 \<Rightarrow>
          if b64 \<noteq> [] then
            (case util_decodeBase64 nacl b64 of
               Inl e \<Rightarrow> (Inl e, store)
             | Inr secretKeyUint8 \<Rightarrow> (box_keyPair_fromSecretKey nacl secretKeyUint8, store))
          else
            (let keyPair = generateX25519KeyPair nacl rnd
             in case util_encodeBase64 nacl (secretKey keyPair) of
                  Inl e \<Rightarrow> (Inl e, store)
                | Inr encoded \<Rightarrow> (Inr keyPair, store(keyStoreId \<mapsto> encoded)))
      | None \<Rightarrow>
          (let keyPair = generateX25519KeyPair nacl rnd
           in case util_encodeBase64 nacl (secretKey keyPair) of
                Inl e \<Rightarrow> (Inl e, store)
              | Inr encoded \<Rightarrow> (Inr keyPair, store(keyStoreId \<mapsto> encoded))))"

text \<open>
  One call run to its end without another call in between. \<open>publicKey58\<close> is the
  wallet's public key in base 58, \<open>None\<close> when no wallet is connected.
\<close>

definition initializeSeekerKeyPair ::
  "Nacl \<Rightarrow> string option \<Rightarrow> bytes \<Rightarrow> SecureStore \<Rightarrow> (error + BoxKeyPair) option \<times> SecureStore" where
  "initializeSeekerKeyPair nacl publicKey58 rnd store =
     (case publicKey58 of
        None \<Rightarrow> (None, store)
      | Some seekerPublicKeyBase58 \<Rightarrow>
          let keyStoreId = SECRET_STORE_KEY_PREFIX @ seekerPublicKeyBase58;
              storedSecretKey = store keyStoreId;
              (r, store') = loadOrGenerate nacl keyStoreId storedSecretKey rnd store
          in (Some r, store'))"



section \<open>SyncReconciler: BackgroundSyncTask\<close>

text \<open>
  An item of the \<open>sync-posts\<close> response. \<open>created_at_s\<close> is the creation time as the
  server writes it, a string. \<open>content_s\<close> is the field the branch for items that are
  not encrypted reads; the interface does not declare it, and it is \<open>None\<close> when the item
  does not carry it.
\<close>

record EncryptedServerMessage =
  id_s :: string
  chat_room_id_s :: "string option"
  community_id_s :: "string option"
  sender_id_s :: string
  created_at_s :: string
  is_encrypted :: bool
  iv_s :: string
  ciphertext_s :: string
  tag_s :: string
  content_s :: "string option"

definition envelope :: "EncryptedServerMessage \<Rightarrow> EncryptedData" where
  "envelope encryptedPost =
     \<lparr>iv = iv_s encryptedPost, ciphertext = ciphertext_s encryptedPost, tag = tag_s encryptedPost\<rparr>"

text \<open>
  The \<open>CommunityPost\<close> object the loop builds for an item, given the text of the post
  and the number that \<open>new Date(encryptedPost.created_at).getTime()\<close> evaluates to.
\<close>

definition missed_post :: "string \<Rightarrow> EncryptedServerMessage \<Rightarrow> string \<Rightarrow> int \<Rightarrow> CommunityPost" where
  "missed_post communityId encryptedPost text time =
     \<lparr>id_p = id_s encryptedPost, community_id = communityId,
      author_public_key = sender_id_s encryptedPost, content = text, signature = [],
      timestamp = time, likes_count = 0, reposts_count = 0,
      is_liked_by_me = 0, is_reposted_by_me = 0, author_name = None, is_moderated = 0\<rparr>"

text \<open>
  The body of the loop over \<open>missedPosts\<close>, with its \<open>try\<close> and \<open>catch\<close>: whatever is
  thrown is logged and the cache is as it was. \<open>getTime\<close> is \<open>new Date(...).getTime()\<close>
  on strings, a parameter; it is \<open>None\<close> where the date is invalid and the number is
  \<open>NaN\<close>. A \<open>timestamp\<close> that is \<open>NaN\<close> and a \<open>content\<close> that is \<open>undefined\<close> reach SQLite
  as \<open>NULL\<close>, and the insert aborts on the \<open>NOT NULL\<close> constraint of the column. \<open>rnd\<close>
  is the randomness the placeholder \<open>fetchRecipientX25519PublicKey\<close> consumes.
\<close>

definition sync_missed_post ::
  "Nacl \<Rightarrow> WebCrypto \<Rightarrow> (string \<Rightarrow> int option) \<Rightarrow> bytes \<Rightarrow> bytes \<Rightarrow> string
     \<Rightarrow> EncryptedServerMessage \<Rightarrow> SQLiteService \<Rightarrow> SQLiteService" where
  "sync_missed_post nacl env getTime seekerX25519SecretKey rnd communityId encryptedPost db =
     (if is_encrypted encryptedPost then
        (let senderX25519PublicKey = fetchRecipientX25519PublicKey nacl rnd (sender_id_s encryptedPost)
         in case deriveSharedSecret nacl seekerX25519SecretKey senderX25519PublicKey of
              Inl e \<Rightarrow> db
            | Inr sharedSecret \<Rightarrow>
                (case decrypt env sharedSecret (envelope encryptedPost) of
                   Inl e \<Rightarrow> db
                 | Inr decryptedContent \<Rightarrow>
                     (case getTime (created_at_s encryptedPost) of
                        None \<Rightarrow> db
                      | Some time \<Rightarrow>
                          (case insertCommunityPost
                                  (missed_post communityId encryptedPost decryptedContent time) db of
                             Inl e \<Rightarrow> db
                           | Inr db' \<Rightarrow> db'))))
      else
        (case content_s encryptedPost of
           None \<Rightarrow> db
         | Some text \<Rightarrow>
             (case getTime (created_at_s encryptedPost) of
                None \<Rightarrow> db
              | Some time \<Rightarrow>
                  (case insertCommunityPost (missed_post communityId encryptedPost text time) db of
                     Inl e \<Rightarrow> db
                   | Inr db' \<Rightarrow> db'))))"

text \<open>The loop over \<open>missedPosts\<close>; \<open>rnd i\<close> is the randomness consumed for the \<open>i\<close>-th item.\<close>

fun sync_missed_posts ::
  "Nacl \<Rightarrow> WebCrypto \<Rightarrow> (string \<Rightarrow> int option) \<Rightarrow> bytes \<Rightarrow> (nat \<Rightarrow> bytes) \<Rightarrow> string
     \<Rightarrow> EncryptedServerMessage list \<Rightarrow> SQLiteService \<Rightarrow> SQLiteService" where
  "sync_missed_posts nacl env getTime sk rnd communityId [] db = db"
| "sync_missed_posts nacl env getTime sk rnd communityId (encryptedPost # rest) db =
     sync_missed_posts nacl env getTime sk (\<lambda>i. rnd (Suc i)) communityId rest
       (sync_missed_post nacl env getTime sk (rnd 0) communityId encryptedPost db)"

text \<open>
  The task reads the identifier \<open>currentSeekerPublicKeyBase558\<close> twice: in the test
  after \<open>SecureStore.getItemAsync('currentSeekerPublicKey')\<close> and in the key under which
  it looks up the secret key. No declaration binds that name (the constant declared one
  line above the test is \<open>currentSeekerPublicKeyBase58\<close>), so evaluating it raises
  \<open>ReferenceError\<close>.
\<close>

definition currentSeekerPublicKeyBase558 :: "error + string option" where
  "currentSeekerPublicKeyBase558 = Inl ReferenceError"

text \<open>
  The body of the loop over \<open>activeCommunityIds\<close>, with its \<open>try\<close> and \<open>catch\<close>.
  \<open>fetch communityId\<close> is the parsed response of the \<open>sync-posts\<close> request for the
  community, or the error of a request that fails or is not \<open>ok\<close>; \<open>Buffer_from\<close> is
  \<open>Buffer.from(..., 'base64')\<close>; \<open>secureStore\<close> is what \<open>SecureStore.getItemAsync\<close>
  reads; \<open>rnd communityId i\<close> is the randomness consumed for the \<open>i\<close>-th item of the
  community.
\<close>

definition sync_community ::
  "Nacl \<Rightarrow> WebCrypto \<Rightarrow> (string \<Rightarrow> int option) \<Rightarrow> (string \<Rightarrow> bytes)
     \<Rightarrow> (string \<Rightarrow> error + EncryptedServerMessage list) \<Rightarrow> SecureStore
     \<Rightarrow> (string \<Rightarrow> nat \<Rightarrow> bytes) \<Rightarrow> string \<Rightarrow> SQLiteService \<Rightarrow> SQLiteService" where
  "sync_community nacl env getTime Buffer_from fetch secureStore rnd communityId db =
     (case fetch communityId of
        Inl e \<Rightarrow> db
      | Inr missedPosts \<Rightarrow>
          if length missedPosts > 0 then
            (case currentSeekerPublicKeyBase558 of
               Inl e \<Rightarrow> db
             | Inr k \<Rightarrow>
                 (case secureStore (''e2ee-keypair-'' @ (case k of None \<Rightarrow> ''null'' | Some t \<Rightarrow> t)) of
                    None \<Rightarrow> db
                  | Some seekerX25519SecretKeyBase64 \<Rightarrow>
                      if seekerX25519SecretKeyBase64 = [] then db
                      else
                        sync_missed_posts nacl env getTime (Buffer_from seekerX25519SecretKeyBase64)
                          (rnd communityId) communityId missedPosts db))
          else db)"

text \<open>
  The task \<open>BACKGROUND_COMMUNITY_SYNC\<close>: the cache after a run. \<open>error_given\<close> says that
  the task manager passed an \<open>error\<close>; \<open>file\<close> is the content of the database file
  that \<open>initDb\<close> opens. Whatever is thrown outside the two inner \<open>try\<close> blocks is caught
  by the outer one and logged.
\<close>

definition background_sync_task ::
  "Nacl \<Rightarrow> WebCrypto \<Rightarrow> (string \<Rightarrow> int option) \<Rightarrow> (string \<Rightarrow> bytes)
     \<Rightarrow> (string \<Rightarrow> error + EncryptedServerMessage list) \<Rightarrow> SecureStore
     \<Rightarrow> (string \<Rightarrow> nat \<Rightarrow> bytes) \<Rightarrow> bool \<Rightarrow> SQLiteDatabase \<Rightarrow> SQLiteService \<Rightarrow> SQLiteService" where
  "background_sync_task nacl env getTime Buffer_from fetch secureStore rnd error_given file db =
     (if error_given then db
      else
        (let db1 = initDb file db;
             currentSeekerPublicKeyBase58 = secureStore ''currentSeekerPublicKey''
         in case currentSeekerPublicKeyBase558 of
              Inl e \<Rightarrow> db1
            | Inr k \<Rightarrow>
                if \<not> truthy k then db1
                else
                  (case getCommunities db1 of
                     Inl e \<Rightarrow> db1
                   | Inr memberCommunities \<Rightarrow>
                       (let activeCommunityIds =
                              map id_c (filter (\<lambda>c. is_member c = 1) memberCommunities)
                        in if length activeCommunityIds = 0 then db1
                           else
                             fold (sync_community nacl env getTime Buffer_from fetch secureStore rnd)
                               activeCommunityIds db1))))"

section \<open>Instances for the concrete evaluations\<close>

text \<open>
  Small instances of the library parameters. They are not tweetnacl, AES-GCM or
  base64: they are simple functions that satisfy the contracts above, so that the
  contracts are seen to be satisfiable and the theorems can be applied to concrete
  inputs. Key agreement is exponentiation of the generator 3, byte by byte; the cipher
  adds one to every byte and appends sixteen copies of a checksum of key, iv and
  plaintext; the codecs map a byte to the character of the same code, and \<open>decode\<close>
  returns a byte array.
\<close>

definition byte_to_char :: "8 word \<Rightarrow> char" where
  "byte_to_char w = char_of (unat w)"

definition char_to_byte :: "char \<Rightarrow> 8 word" where
  "char_to_byte c = of_nat (of_char c)"

definition example_public :: "bytes \<Rightarrow> bytes" where
  "example_public sk = map (\<lambda>x. 3 ^ unat x) sk"

definition example_nacl :: Nacl where
  "example_nacl =
     \<lparr>box_keyPair = (\<lambda>r. \<lparr>publicKey = example_public r, secretKey = r\<rparr>),
      box_keyPair_fromSecretKey =
        (\<lambda>sk. if length sk \<noteq> 32 then Inl InvalidKey
              else Inr \<lparr>publicKey = example_public sk, secretKey = sk\<rparr>),
      box_before =
        (\<lambda>pk sk. if length pk \<noteq> 32 \<or> length sk \<noteq> 32 then Inl InvalidKey
                 else Inr (map2 (\<lambda>P x. P ^ unat x) pk sk)),
      util = Some \<lparr>encodeBase64 = (\<lambda>b. Inr (map byte_to_char b)),
                    decodeBase64 = (\<lambda>t. Inr (map char_to_byte t))\<rparr>\<rparr>"


definition example_tag :: "bytes \<Rightarrow> bytes \<Rightarrow> bytes \<Rightarrow> bytes" where
  "example_tag key iv0 p = replicate 16 (sum_list (key @ iv0 @ p))"

definition example_webcrypto :: WebCrypto where
  "example_webcrypto =
     \<lparr>importKey =
        (\<lambda>raw. if length raw = 16 \<or> length raw = 24 \<or> length raw = 32 then Inr raw
               else Inl InvalidKey),
      aes_gcm_encrypt = (\<lambda>key iv0 p. map (\<lambda>b. b + 1) p @ example_tag key iv0 p),
      aes_gcm_decrypt =
        (\<lambda>key iv0 c.
           if length c < 16 then Inl AuthenticationFailed
           else let p = map (\<lambda>b. b - 1) (take (length c - 16) c)
                in if drop (length c - 16) c = example_tag key iv0 p then Inr p
                   else Inl AuthenticationFailed),
      base64_encode = map byte_to_char,
      base64_decode = (\<lambda>t. JsBytes (map char_to_byte t)),
      utf8_encode = map char_to_byte,
      utf8_decode = map byte_to_char\<rparr>"

text \<open>The same platform with a \<open>decode\<close> that returns the decoded text as a string.\<close>

definition example_string_decode :: WebCrypto where
  "example_string_decode = example_webcrypto\<lparr>base64_decode := JsString\<rparr>"

text \<open>
  A shared secret, an iv, the envelope that \<open>encrypt\<close> produces for the plaintext \<open>gm\<close>
  (empty if \<open>encrypt\<close> fails), the same envelope with its tag replaced by sixteen zero
  bytes, a date parser that knows one date, and an item of a catch-up batch that carries
  the tampered envelope.
\<close>

definition example_secret :: bytes where
  "example_secret = replicate 32 1"

definition example_iv :: bytes where
  "example_iv = replicate 12 9"

definition example_envelope :: EncryptedData where
  "example_envelope =
     (case encrypt example_webcrypto example_iv example_secret ''gm'' of
        Inl e \<Rightarrow> \<lparr>iv = [], ciphertext = [], tag = []\<rparr>
      | Inr e \<Rightarrow> e)"

definition example_tampered :: EncryptedData where
  "example_tampered = example_envelope\<lparr>tag := base64_encode example_webcrypto (replicate 16 0)\<rparr>"

definition example_getTime :: "string \<Rightarrow> int option" where
  "example_getTime t = (if t = ''2025-01-01T00:00:00.000Z'' then Some 1735689600000 else None)"

definition example_missed_post :: EncryptedServerMessage where
  "example_missed_post =
     \<lparr>id_s = ''p9'', chat_room_id_s = None, community_id_s = Some ''c1'', sender_id_s = ''bob'',
      created_at_s = ''2025-01-01T00:00:00.000Z'', is_encrypted = True, iv_s = iv example_tampered,
      ciphertext_s = ciphertext example_tampered, tag_s = tag example_tampered, content_s = None\<rparr>"

text \<open>Two key pairs and the key under which the first is stored for \<open>alice\<close>.\<close>

definition example_keys_1 :: BoxKeyPair where
  "example_keys_1 = box_keyPair example_nacl (replicate 32 1)"

definition example_keys_2 :: BoxKeyPair where
  "example_keys_2 = box_keyPair example_nacl (replicate 32 2)"


text \<open>Communities, posts and a cache for the evaluations.\<close>

definition example_community :: Community where
  "example_community =
     \<lparr>id_c = ''c1'', creator_public_key = ''alice'', name_c = ''Builders'', type_c = Public,
      gating_mint = None, created_at = 1000, is_member = 0\<rparr>"

definition example_post :: CommunityPost where
  "example_post =
     \<lparr>id_p = ''p1'', community_id = ''c1'', author_public_key = ''alice'', content = ''gm'',
      signature = ''sig'', timestamp = 2000, likes_count = 0, reposts_count = 0,
      is_liked_by_me = 0, is_reposted_by_me = 0, author_name = Some ''alice...'',
      is_moderated = 0\<rparr>"

definition example_database :: SQLiteDatabase where
  "example_database =
     \<lparr>communities = [example_community, example_community\<lparr>id_c := ''c2''\<rparr>],
      community_posts = [example_post, example_post\<lparr>id_p := ''p2'', community_id := ''c2''\<rparr>]\<rparr>"

definition example_cache :: SQLiteService where
  "example_cache = Some example_database"

text \<open>
  A service that has connected as \<open>alice\<close>, and the same service after it has joined
  the room \<open>community_abc\<close>.
\<close>

definition example_connected :: SocketService where
  "example_connected = transport_connected ''alice'' (initSocket ''alice'' new_SocketService)"

definition example_service :: SocketService where
  "example_service = joinChat ''community_abc'' example_connected"

text \<open>An encrypted \<open>new_message\<close> whose sender is the local user \<open>alice\<close>.\<close>

definition example_own_encrypted_message :: InboundMessage where
  "example_own_encrypted_message =
     \<lparr>id_m = Some ''m1'', chat_room_id = Some ''chat1'', iv_m = Some ''aXY='',
      ciphertext_m = Some ''Y3Q='', tag_m = Some ''dGFn'', senderPublicKey = Some ''alice'',
      sender_id = Some ''alice'', created_at_m = 3000\<rparr>"

section \<open>Properties of the LocalCache\<close>

lemma insert_or_replace_last_wins:
  "key r' = key r \<Longrightarrow>
     insert_or_replace key r' (insert_or_replace key r rows) = insert_or_replace key r' rows"
  by (simp add: insert_or_replace_def)

lemma insert_or_replace_one_row:
  "filter (\<lambda>x. key x = key r) (insert_or_replace key r rows) = [r]"
proof -
  have "filter (\<lambda>x. key x = key r) (filter (\<lambda>x. key x \<noteq> key r) rows) = []"
    by (induction rows) auto
  then show ?thesis by (simp add: insert_or_replace_def)
qed

lemma insert_or_replace_others:
  "k \<noteq> key r \<Longrightarrow>
     filter (\<lambda>x. key x = k) (insert_or_replace key r rows) = filter (\<lambda>x. key x = k) rows"
  by (induction rows) (auto simp: insert_or_replace_def)

lemma insert_or_replace_distinct:
  assumes "distinct (map key rows)"
  shows "distinct (map key (insert_or_replace key r rows))"
proof -
  have "distinct (map key (filter (\<lambda>x. key x \<noteq> key r) rows))"
    using assms by (rule distinct_map_filter)
  then show ?thesis by (auto simp: insert_or_replace_def)
qed

lemma insert_or_replace_length_again:
  assumes "key r' = key r"
  shows "length (insert_or_replace key r' (insert_or_replace key r rows))
           = length (insert_or_replace key r rows)"
proof -
  have "filter (\<lambda>x. key x \<noteq> key r) (filter (\<lambda>x. key x \<noteq> key r) rows)
          = filter (\<lambda>x. key x \<noteq> key r) rows"
    by simp
  then show ?thesis using assms by (simp add: insert_or_replace_def)
qed

lemma executeSql_then:
  "and_then (executeSql f db) (executeSql g) = executeSql (\<lambda>d. g (f d)) db"
  by (cases db) (simp_all add: and_then_def executeSql_def)

lemma delete_then_replace:
  "insert_or_replace key r (delete_where key (key r) rows) = insert_or_replace key r rows"
  by (simp add: insert_or_replace_def delete_where_def)

lemma update_then_replace:
  assumes "\<And>x. key (f x) = key x"
  shows "insert_or_replace key r (update_where key (key r) f rows) = insert_or_replace key r rows"
proof -
  have "filter (\<lambda>x. key x \<noteq> key r) (update_where key (key r) f rows)
          = filter (\<lambda>x. key x \<noteq> key r) rows"
    by (induction rows) (auto simp: update_where_def assms)
  then show ?thesis by (simp add: insert_or_replace_def)
qed

lemma insertCommunity_last_wins:
  assumes "id_c c' = id_c c"
  shows "and_then (insertCommunity c db) (insertCommunity c') = insertCommunity c' db"
  using insert_or_replace_last_wins [of id_c c' c, OF assms]
  by (simp add: insertCommunity_def executeSql_then)

lemma insertCommunityPost_last_wins:
  assumes "id_p p' = id_p p"
  shows "and_then (insertCommunityPost p db) (insertCommunityPost p') = insertCommunityPost p' db"
  using insert_or_replace_last_wins [of id_p p' p, OF assms]
  by (simp add: insertCommunityPost_def executeSql_then)

lemma insertCommunity_after_membership:
  "and_then (updateCommunityMembership (id_c c) m db) (insertCommunity c) = insertCommunity c db"
  by (simp add: insertCommunity_def updateCommunityMembership_def executeSql_then update_then_replace)

lemma insertCommunityPost_after_delete:
  "and_then (deleteCommunityPost (id_p p) db) (insertCommunityPost p) = insertCommunityPost p db"
  by (simp add: insertCommunityPost_def deleteCommunityPost_def executeSql_then delete_then_replace)

lemma insertCommunityPost_after_engagement:
  "and_then (updateCommunityPostEngagement (id_p p) l r lm rm db) (insertCommunityPost p)
     = insertCommunityPost p db"
  by (simp add: insertCommunityPost_def updateCommunityPostEngagement_def executeSql_then update_then_replace)

lemma insertCommunityPost_after_moderation:
  "and_then (updateCommunityPostModeration (id_p p) m db) (insertCommunityPost p)
     = insertCommunityPost p db"
  by (simp add: insertCommunityPost_def updateCommunityPostModeration_def executeSql_then update_then_replace)

lemma insert_or_replace_frame:
  "filter (\<lambda>x. key x \<noteq> key r) (insert_or_replace key r rows) = filter (\<lambda>x. key x \<noteq> key r) rows"
  by (simp add: insert_or_replace_def)

lemma filter_other_keys:
  "k \<notin> key ` set rows \<Longrightarrow> filter (\<lambda>x. key x \<noteq> k) rows = rows"
  by (induction rows) auto

lemma filter_one_key:
  assumes "distinct (map key rows)" and "k \<in> key ` set rows"
  shows "Suc (length (filter (\<lambda>x. key x \<noteq> k) rows)) = length rows"
  using assms
proof (induction rows)
  case Nil
  then show ?case by simp
next
  case (Cons a rows)
  show ?case
  proof (cases "key a = k")
    case True
    then have "k \<notin> key ` set rows"
      using Cons.prems(1) by auto
    then have "filter (\<lambda>x. key x \<noteq> k) rows = rows"
      by (rule filter_other_keys)
    then show ?thesis
      using True by simp
  next
    case False
    then have "k \<in> key ` set rows"
      using Cons.prems(2) by auto
    then have "Suc (length (filter (\<lambda>x. key x \<noteq> k) rows)) = length rows"
      using Cons.IH Cons.prems(1) by simp
    then show ?thesis
      using False by simp
  qed
qed

lemma insert_or_replace_length_present:
  assumes "distinct (map key rows)" and "key r \<in> key ` set rows"
  shows "length (insert_or_replace key r rows) = length rows"
  using filter_one_key [OF assms] by (simp add: insert_or_replace_def)

lemma insert_or_replace_length_absent:
  assumes "key r \<notin> key ` set rows"
  shows "length (insert_or_replace key r rows) = Suc (length rows)"
  using filter_other_keys [OF assms] by (simp add: insert_or_replace_def)

lemma insertCommunity_some:
  "insertCommunity c (Some d) = Inr (Some (d\<lparr>communities := insert_or_replace id_c c (communities d)\<rparr>))"
  by (simp add: insertCommunity_def executeSql_def)

lemma insertCommunityPost_some:
  "insertCommunityPost p (Some d)
     = Inr (Some (d\<lparr>community_posts := insert_or_replace id_p p (community_posts d)\<rparr>))"
  by (simp add: insertCommunityPost_def executeSql_def)

lemma insertCommunity_twice:
  assumes "id_c c' = id_c c"
  shows "\<exists>d1 d2. insertCommunity c (Some d) = Inr (Some d1) \<and>
           insertCommunity c' (Some d1) = Inr (Some d2) \<and>
           insertCommunity c' (Some d) = Inr (Some d2) \<and>
           filter (\<lambda>x. id_c x = id_c c) (communities d2) = [c'] \<and>
           filter (\<lambda>x. id_c x \<noteq> id_c c) (communities d2)
             = filter (\<lambda>x. id_c x \<noteq> id_c c) (communities d) \<and>
           community_posts d2 = community_posts d \<and>
           length (communities d2) = length (communities d1) \<and>
           (distinct (map id_c (communities d)) \<longrightarrow> distinct (map id_c (communities d2))) \<and>
           (distinct (map id_c (communities d)) \<and> id_c c \<in> id_c ` set (communities d) \<longrightarrow>
              length (communities d2) = length (communities d)) \<and>
           (id_c c \<notin> id_c ` set (communities d) \<longrightarrow>
              length (communities d2) = Suc (length (communities d)))"
proof -
  let ?r1 = "insert_or_replace id_c c (communities d)"
  let ?d1 = "d\<lparr>communities := ?r1\<rparr>"
  let ?r2 = "insert_or_replace id_c c' (communities d)"
  let ?d2 = "d\<lparr>communities := ?r2\<rparr>"
  have again: "insert_or_replace id_c c' ?r1 = ?r2"
    using assms by (rule insert_or_replace_last_wins)
  have a: "insertCommunity c (Some d) = Inr (Some ?d1)"
    by (rule insertCommunity_some)
  have b: "insertCommunity c' (Some ?d1) = Inr (Some ?d2)"
    by (simp add: insertCommunity_some again)
  have c: "insertCommunity c' (Some d) = Inr (Some ?d2)"
    by (rule insertCommunity_some)
  have one: "filter (\<lambda>x. id_c x = id_c c) ?r2 = [c']"
    using insert_or_replace_one_row [of id_c c' "communities d"] assms by simp
  have others: "filter (\<lambda>x. id_c x \<noteq> id_c c) ?r2 = filter (\<lambda>x. id_c x \<noteq> id_c c) (communities d)"
    using insert_or_replace_frame [of id_c c' "communities d"] assms by simp
  have len: "length ?r2 = length ?r1"
    using insert_or_replace_length_again [of id_c c' c "communities d"] assms again by simp
  have dist: "distinct (map id_c (communities d)) \<longrightarrow> distinct (map id_c ?r2)"
    by (simp add: insert_or_replace_distinct)
  have present: "distinct (map id_c (communities d)) \<and> id_c c \<in> id_c ` set (communities d) \<longrightarrow>
                   length ?r2 = length (communities d)"
    using insert_or_replace_length_present [of id_c "communities d" c'] assms by simp
  have absent: "id_c c \<notin> id_c ` set (communities d) \<longrightarrow> length ?r2 = Suc (length (communities d))"
    using insert_or_replace_length_absent [of id_c c' "communities d"] assms by simp
  have posts: "community_posts ?d2 = community_posts d" and rows: "communities ?d2 = ?r2"
    and rows1: "communities ?d1 = ?r1"
    by simp_all
  show ?thesis
    using a b c one others len dist present absent posts rows rows1 by metis
qed

lemma insertCommunityPost_twice:
  assumes "id_p p' = id_p p"
  shows "\<exists>d1 d2. insertCommunityPost p (Some d) = Inr (Some d1) \<and>
           insertCommunityPost p' (Some d1) = Inr (Some d2) \<and>
           insertCommunityPost p' (Some d) = Inr (Some d2) \<and>
           filter (\<lambda>x. id_p x = id_p p) (community_posts d2) = [p'] \<and>
           filter (\<lambda>x. id_p x \<noteq> id_p p) (community_posts d2)
             = filter (\<lambda>x. id_p x \<noteq> id_p p) (community_posts d) \<and>
           communities d2 = communities d \<and>
           length (community_posts d2) = length (community_posts d1) \<and>
           (distinct (map id_p (community_posts d)) \<longrightarrow> distinct (map id_p (community_posts d2))) \<and>
           (distinct (map id_p (community_posts d)) \<and> id_p p \<in> id_p ` set (community_posts d) \<longrightarrow>
              length (community_posts d2) = length (community_posts d)) \<and>
           (id_p p \<notin> id_p ` set (community_posts d) \<longrightarrow>
              length (community_posts d2) = Suc (length (community_posts d)))"
proof -
  let ?r1 = "insert_or_replace id_p p (community_posts d)"
  let ?d1 = "d\<lparr>community_posts := ?r1\<rparr>"
  let ?r2 = "insert_or_replace id_p p' (community_posts d)"
  let ?d2 = "d\<lparr>community_posts := ?r2\<rparr>"
  have again: "insert_or_replace id_p p' ?r1 = ?r2"
    using assms by (rule insert_or_replace_last_wins)
  have a: "insertCommunityPost p (Some d) = Inr (Some ?d1)"
    by (rule insertCommunityPost_some)
  have b: "insertCommunityPost p' (Some ?d1) = Inr (Some ?d2)"
    by (simp add: insertCommunityPost_some again)
  have c: "insertCommunityPost p' (Some d) = Inr (Some ?d2)"
    by (rule insertCommunityPost_some)
  have one: "filter (\<lambda>x. id_p x = id_p p) ?r2 = [p']"
    using insert_or_replace_one_row [of id_p p' "community_posts d"] assms by simp
  have others: "filter (\<lambda>x. id_p x \<noteq> id_p p) ?r2
                  = filter (\<lambda>x. id_p x \<noteq> id_p p) (community_posts d)"
    using insert_or_replace_frame [of id_p p' "community_posts d"] assms by simp
  have len: "length ?r2 = length ?r1"
    using insert_or_replace_length_again [of id_p p' p "community_posts d"] assms again by simp
  have dist: "distinct (map id_p (community_posts d)) \<longrightarrow> distinct (map id_p ?r2)"
    by (simp add: insert_or_replace_distinct)
  have present: "distinct (map id_p (community_posts d)) \<and> id_p p \<in> id_p ` set (community_posts d) \<longrightarrow>
                   length ?r2 = length (community_posts d)"
    using insert_or_replace_length_present [of id_p "community_posts d" p'] assms by simp
  have absent: "id_p p \<notin> id_p ` set (community_posts d) \<longrightarrow>
                  length ?r2 = Suc (length (community_posts d))"
    using insert_or_replace_length_absent [of id_p p' "community_posts d"] assms by simp
  have comms: "communities ?d2 = communities d" and rows: "community_posts ?d2 = ?r2"
    and rows1: "community_posts ?d1 = ?r1"
    by simp_all
  show ?thesis
    using a b c one others len dist present absent comms rows rows1 by metis
qed

text \<open>
  C4. Upsert by record id is idempotent and the last upsert wins, for communities
  (\<open>insertCommunity\<close>) and for posts (\<open>insertCommunityPost\<close>): upserting a record and
  then a record of the same id, with the same or with updated fields, leaves the cache
  as the last upsert alone does; so does an upsert after any other write of that id (a
  membership, engagement or moderation update, a deletion). On an initialised cache
  both upserts succeed, and after them: exactly one row holds the id, and it is the
  record of the last upsert; the rows of every other id are the rows the table held
  before, in their order; the other table is untouched; the table is as long as after
  the first upsert; a table whose ids were distinct still has distinct ids, and is as
  long as it was before the two upserts when the id was already in it; when the id was
  not in the table, the table has grown by that one row.
\<close>

theorem upsert_idempotent:
  assumes "id_c c' = id_c c" and "id_p p' = id_p p"
  shows "and_then (insertCommunity c db) (insertCommunity c') = insertCommunity c' db \<and>
         and_then (insertCommunityPost p db) (insertCommunityPost p') = insertCommunityPost p' db \<and>
         and_then (updateCommunityMembership (id_c c) isMember db) (insertCommunity c) = insertCommunity c db \<and>
         and_then (deleteCommunityPost (id_p p) db) (insertCommunityPost p) = insertCommunityPost p db \<and>
         and_then (updateCommunityPostEngagement (id_p p) l r lm rm db) (insertCommunityPost p)
           = insertCommunityPost p db \<and>
         and_then (updateCommunityPostModeration (id_p p) isModerated db) (insertCommunityPost p)
           = insertCommunityPost p db \<and>
         (\<exists>d1 d2. insertCommunity c (Some d) = Inr (Some d1) \<and>
            insertCommunity c' (Some d1) = Inr (Some d2) \<and>
            insertCommunity c' (Some d) = Inr (Some d2) \<and>
            filter (\<lambda>x. id_c x = id_c c) (communities d2) = [c'] \<and>
            filter (\<lambda>x. id_c x \<noteq> id_c c) (communities d2)
              = filter (\<lambda>x. id_c x \<noteq> id_c c) (communities d) \<and>
            community_posts d2 = community_posts d \<and>
            length (communities d2) = length (communities d1) \<and>
            (distinct (map id_c (communities d)) \<longrightarrow> distinct (map id_c (communities d2))) \<and>
            (distinct (map id_c (communities d)) \<and> id_c c \<in> id_c ` set (communities d) \<longrightarrow>
               length (communities d2) = length (communities d)) \<and>
            (id_c c \<notin> id_c ` set (communities d) \<longrightarrow>
               length (communities d2) = Suc (length (communities d)))) \<and>
         (\<exists>d1 d2. insertCommunityPost p (Some d) = Inr (Some d1) \<and>
            insertCommunityPost p' (Some d1) = Inr (Some d2) \<and>
            insertCommunityPost p' (Some d) = Inr (Some d2) \<and>
            filter (\<lambda>x. id_p x = id_p p) (community_posts d2) = [p'] \<and>
            filter (\<lambda>x. id_p x \<noteq> id_p p) (community_posts d2)
              = filter (\<lambda>x. id_p x \<noteq> id_p p) (community_posts d) \<and>
            communities d2 = communities d \<and>
            length (community_posts d2) = length (community_posts d1) \<and>
            (distinct (map id_p (community_posts d)) \<longrightarrow> distinct (map id_p (community_posts d2))) \<and>
            (distinct (map id_p (community_posts d)) \<and> id_p p \<in> id_p ` set (community_posts d) \<longrightarrow>
               length (community_posts d2) = length (community_posts d)) \<and>
            (id_p p \<notin> id_p ` set (community_posts d) \<longrightarrow>
               length (community_posts d2) = Suc (length (community_posts d))))"
proof -
  note eqs = insertCommunity_last_wins [OF assms(1), of db]
    insertCommunityPost_last_wins [OF assms(2), of db]
    insertCommunity_after_membership [of c isMember db]
    insertCommunityPost_after_delete [of p db]
    insertCommunityPost_after_engagement [of p l r lm rm db]
    insertCommunityPost_after_moderation [of p isModerated db]
  show ?thesis
    using eqs insertCommunity_twice [OF assms(1), of d] insertCommunityPost_twice [OF assms(2), of d]
    by (intro conjI) assumption+
qed

theorem upsert_idempotent_witness:
  "id_c (example_community\<lparr>name_c := ''Renamed'', is_member := 1\<rparr>) = id_c example_community \<and>
   id_p (example_post\<lparr>likes_count := 3\<rparr>) = id_p example_post \<and>
   distinct (map id_c (communities example_database)) \<and>
   id_c example_community \<in> id_c ` set (communities example_database) \<and>
   distinct (map id_p (community_posts example_database)) \<and>
   id_p example_post \<in> id_p ` set (community_posts example_database) \<and>
   length (communities example_database) = 2 \<and> length (community_posts example_database) = 2 \<and>
   and_then (insertCommunity example_community example_cache)
     (insertCommunity (example_community\<lparr>name_c := ''Renamed'', is_member := 1\<rparr>))
     = insertCommunity (example_community\<lparr>name_c := ''Renamed'', is_member := 1\<rparr>) example_cache \<and>
   and_then (insertCommunityPost example_post example_cache)
     (insertCommunityPost (example_post\<lparr>likes_count := 3\<rparr>))
     = insertCommunityPost (example_post\<lparr>likes_count := 3\<rparr>) example_cache \<and>
   (\<exists>d1 d2. insertCommunity example_community (Some example_database) = Inr (Some d1) \<and>
      insertCommunity (example_community\<lparr>name_c := ''Renamed'', is_member := 1\<rparr>) (Some d1) = Inr (Some d2) \<and>
      filter (\<lambda>x. id_c x = id_c example_community) (communities d2)
        = [example_community\<lparr>name_c := ''Renamed'', is_member := 1\<rparr>] \<and>
      filter (\<lambda>x. id_c x \<noteq> id_c example_community) (communities d2)
        = filter (\<lambda>x. id_c x \<noteq> id_c example_community) (communities example_database) \<and>
      community_posts d2 = community_posts example_database \<and>
      distinct (map id_c (communities d2)) \<and>
      length (communities d2) = length (communities example_database)) \<and>
   (\<exists>d1 d2. insertCommunityPost example_post (Some example_database) = Inr (Some d1) \<and>
      insertCommunityPost (example_post\<lparr>likes_count := 3\<rparr>) (Some d1) = Inr (Some d2) \<and>
      filter (\<lambda>x. id_p x = id_p example_post) (community_posts d2) = [example_post\<lparr>likes_count := 3\<rparr>] \<and>
      filter (\<lambda>x. id_p x \<noteq> id_p example_post) (community_posts d2)
        = filter (\<lambda>x. id_p x \<noteq> id_p example_post) (community_posts example_database) \<and>
      communities d2 = communities example_database \<and>
      distinct (map id_p (community_posts d2)) \<and>
      length (community_posts d2) = length (community_posts example_database)) \<and>
   id_c (example_community\<lparr>id_c := ''c3''\<rparr>) \<notin> id_c ` set (communities example_database) \<and>
   id_p (example_post\<lparr>id_p := ''p3''\<rparr>) \<notin> id_p ` set (community_posts example_database) \<and>
   (\<exists>d1 d2. insertCommunity (example_community\<lparr>id_c := ''c3''\<rparr>) (Some example_database) = Inr (Some d1) \<and>
      insertCommunity (example_community\<lparr>id_c := ''c3''\<rparr>) (Some d1) = Inr (Some d2) \<and>
      length (communities d2) = length (communities d1) \<and>
      length (communities d2) = Suc (length (communities example_database))) \<and>
   (\<exists>d1 d2. insertCommunityPost (example_post\<lparr>id_p := ''p3''\<rparr>) (Some example_database) = Inr (Some d1) \<and>
      insertCommunityPost (example_post\<lparr>id_p := ''p3''\<rparr>) (Some d1) = Inr (Some d2) \<and>
      length (community_posts d2) = length (community_posts d1) \<and>
      length (community_posts d2) = Suc (length (community_posts example_database)))"
proof -
  let ?R = "example_community\<lparr>name_c := ''Renamed'', is_member := 1\<rparr>"
  let ?L = "example_post\<lparr>likes_count := 3\<rparr>"
  let ?C = "example_community\<lparr>id_c := ''c3''\<rparr>"
  let ?P = "example_post\<lparr>id_p := ''p3''\<rparr>"
  have h1: "id_c ?R = id_c example_community" and h2: "id_p ?L = id_p example_post"
    by simp_all
  have d1: "distinct (map id_c (communities example_database))"
    and d2: "distinct (map id_p (community_posts example_database))"
    and l1: "length (communities example_database) = 2"
    and l2: "length (community_posts example_database) = 2"
    by (simp_all add: example_database_def example_community_def example_post_def)
  have m1: "id_c example_community \<in> id_c ` set (communities example_database)"
    and m2: "id_p example_post \<in> id_p ` set (community_posts example_database)"
    by (simp_all add: example_database_def)
  have n1: "id_c ?C \<notin> id_c ` set (communities example_database)"
    and n2: "id_p ?P \<notin> id_p ` set (community_posts example_database)"
    by (simp_all add: example_database_def example_community_def example_post_def)
  note t1 = upsert_idempotent [OF h1 h2, of example_cache 0 0 0 0 0 0 example_database]
  note t2 = upsert_idempotent [where c = ?C and c' = ?C and p = ?P and p' = ?P
      and db = example_cache and d = example_database, OF refl refl]
  show ?thesis
    using h1 h2 d1 d2 l1 l2 m1 m2 n1 n2 t1 t2
    by (intro conjI) blast+
qed





section \<open>Properties of the ConnectionManager\<close>

lemma example_connected_eval:
  "example_connected =
     \<lparr>socket = Some \<lparr>connected = True, transports = [''websocket'', ''polling''],
                      emitted = [Authenticate ''alice'']\<rparr>,
      userId = Some ''alice'', activeRooms = [], u_isConnected = True,
      reconnectAttempts = 0, maxReconnectAttempts = 5, isPersistent = True\<rparr>"
  by (simp add: example_connected_def transport_connected_def on_connect_def authenticate_def
      initSocket_def socket_disconnect_def new_SocketService_def socket_connected_def
      socket_emit_def Let_def)

lemma example_service_eval:
  "example_service =
     \<lparr>socket = Some \<lparr>connected = True, transports = [''websocket'', ''polling''],
                      emitted = [Authenticate ''alice'', JoinChat ''community_abc'']\<rparr>,
      userId = Some ''alice'', activeRooms = [''community_abc''], u_isConnected = True,
      reconnectAttempts = 0, maxReconnectAttempts = 5, isPersistent = True\<rparr>"
  by (simp add: example_service_def example_connected_eval
      joinChat_def socket_connected_def socket_emit_def)

lemma joinChat_member: "chatId \<in> set (activeRooms s) \<Longrightarrow> joinChat chatId s = s"
  by (simp add: joinChat_def)

lemma fold_joinChat_members: "set rs \<subseteq> set (activeRooms s) \<Longrightarrow> fold joinChat rs s = s"
  by (induction rs) (simp_all add: joinChat_member)

lemma on_connect_eq: "on_connect uid s = (authenticate uid s)\<lparr>u_isConnected := True\<rparr>"
proof -
  have "activeRooms ((authenticate uid s)\<lparr>u_isConnected := True\<rparr>) = activeRooms s"
    by (simp add: authenticate_def socket_emit_def)
  then show ?thesis
    by (simp add: on_connect_def Let_def fold_joinChat_members)
qed

lemma join_requests_append: "join_requests (xs @ ys) = join_requests xs @ join_requests ys"
  by (induction xs rule: join_requests.induct) simp_all

lemma on_connect_no_join: "join_requests (sent (on_connect uid s)) = join_requests (sent s)"
  by (cases "socket s")
     (simp_all add: on_connect_eq authenticate_def socket_connected_def socket_emit_def sent_def
        join_requests_append)

text \<open>
  C5, as stated, fails: on the connected service that has joined \<open>community_abc\<close>,
  \<open>pauseConnection\<close> empties \<open>activeRooms\<close>, so the set of subscribed rooms after the
  pause is not the set before it.
\<close>

theorem pause_forgets_rooms:
  "socket example_service \<noteq> None \<and> u_isConnected example_service \<and>
   activeRooms example_service = [''community_abc''] \<and>
   activeRooms (pauseConnection example_service) = [] \<and>
   set (activeRooms (pauseConnection example_service)) \<noteq> set (activeRooms example_service)"
  by (simp add: example_service_eval pauseConnection_def socket_disconnect_def on_disconnect_def)

lemma socket_disconnect_props:
  "\<not> socket_connected (socket_disconnect s) \<and> activeRooms (socket_disconnect s) = activeRooms s"
  by (cases "socket s") (simp_all add: socket_disconnect_def socket_connected_def on_disconnect_def)

text \<open>
  C5, amended. When a socket exists and the service is connected, \<open>pauseConnection\<close>
  leaves the connected state (the flag is off and the socket is disconnected) and clears
  the room membership, so that resuming and reconnecting emits the authentication and
  no join request. When there is no socket or the service is not connected,
  \<open>pauseConnection\<close> changes nothing.
\<close>

theorem pause_clears_rooms:
  "(socket s \<noteq> None \<and> u_isConnected s \<longrightarrow>
      activeRooms (pauseConnection s) = [] \<and>
      \<not> u_isConnected (pauseConnection s) \<and>
      \<not> socket_connected (pauseConnection s) \<and>
      sent (transport_connected uid (resumeConnection uid (pauseConnection s))) = [Authenticate uid]) \<and>
   (\<not> (socket s \<noteq> None \<and> u_isConnected s) \<longrightarrow> pauseConnection s = s)"
proof -
  have a: "activeRooms (socket_disconnect (s\<lparr>activeRooms := []\<rparr>)) = []"
    using socket_disconnect_props [of "s\<lparr>activeRooms := []\<rparr>"] by simp
  have b: "\<not> socket_connected ((socket_disconnect (s\<lparr>activeRooms := []\<rparr>))\<lparr>u_isConnected := False\<rparr>)"
    using socket_disconnect_props [of "s\<lparr>activeRooms := []\<rparr>"] by (simp add: socket_connected_def)
  have c: "activeRooms (socket_disconnect ((socket_disconnect (s\<lparr>activeRooms := []\<rparr>))\<lparr>u_isConnected := False\<rparr>)) = []"
    using socket_disconnect_props [of "(socket_disconnect (s\<lparr>activeRooms := []\<rparr>))\<lparr>u_isConnected := False\<rparr>"] a
    by simp
  have d: "socket s \<noteq> None \<and> u_isConnected s \<longrightarrow>
      sent (transport_connected uid (resumeConnection uid (pauseConnection s))) = [Authenticate uid]"
    using c
    by (simp add: pauseConnection_def resumeConnection_def initSocket_def transport_connected_def
        on_connect_eq authenticate_def socket_connected_def socket_emit_def sent_def)
  show ?thesis
    using a b d by (simp add: pauseConnection_def)
qed

theorem pause_clears_rooms_witness:
  "socket example_service \<noteq> None \<and> u_isConnected example_service \<and>
   activeRooms (pauseConnection example_service) = [] \<and>
   \<not> u_isConnected (pauseConnection example_service) \<and>
   \<not> socket_connected (pauseConnection example_service) \<and>
   sent (transport_connected ''alice'' (resumeConnection ''alice'' (pauseConnection example_service)))
     = [Authenticate ''alice''] \<and>
   \<not> (socket new_SocketService \<noteq> None \<and> u_isConnected new_SocketService) \<and>
   pauseConnection new_SocketService = new_SocketService"
proof -
  have h: "socket example_service \<noteq> None \<and> u_isConnected example_service"
    by (simp add: example_service_eval)
  have n: "\<not> (socket new_SocketService \<noteq> None \<and> u_isConnected new_SocketService)"
    by (simp add: new_SocketService_def)
  show ?thesis
    using h n pause_clears_rooms [of example_service "''alice''"] pause_clears_rooms [of new_SocketService "''alice''"]
    by blast
qed

text \<open>
  C6, as stated, fails for the community-post send: on a connected service that is not
  in the room \<open>community_abc\<close>, \<open>sendCommunityPost\<close> transmits the post, emits no join
  request and leaves the room out of the membership.
\<close>

theorem community_post_send_does_not_join:
  "socket_connected example_connected \<and>
   ''community_abc'' \<notin> set (activeRooms example_connected) \<and>
   sent (sendCommunityPost ''abc'' example_post example_connected)
     = [Authenticate ''alice'', SendCommunityPost ''community_abc'' example_post] \<and>
   join_requests (sent (sendCommunityPost ''abc'' example_post example_connected)) = [] \<and>
   ''community_abc'' \<notin> set (activeRooms (sendCommunityPost ''abc'' example_post example_connected))"
  by (simp add: example_connected_eval sendCommunityPost_def socket_connected_def socket_emit_def
      sent_def)

lemma sendMessage_not_member:
  "socket_connected s \<Longrightarrow> chatId \<notin> set (activeRooms s) \<Longrightarrow>
     sent (sendMessage chatId message s) = sent s @ [JoinChat chatId, SendMessage chatId message] \<and>
     activeRooms (sendMessage chatId message s) = activeRooms s @ [chatId]"
  by (cases "socket s")
     (simp_all add: sendMessage_def joinChat_def socket_connected_def socket_emit_def sent_def)

lemma sendMessage_member:
  "socket_connected s \<Longrightarrow> chatId \<in> set (activeRooms s) \<Longrightarrow>
     sent (sendMessage chatId message s) = sent s @ [SendMessage chatId message] \<and>
     activeRooms (sendMessage chatId message s) = activeRooms s"
  by (cases "socket s")
     (simp_all add: sendMessage_def socket_connected_def socket_emit_def sent_def)

lemma sendCommunityPost_connected:
  "socket_connected s \<Longrightarrow>
     sent (sendCommunityPost communityId post s)
       = sent s @ [SendCommunityPost (''community_'' @ communityId) post] \<and>
     activeRooms (sendCommunityPost communityId post s) = activeRooms s"
  by (cases "socket s")
     (simp_all add: sendCommunityPost_def socket_connected_def socket_emit_def sent_def)

text \<open>
  C6, amended. While the socket is connected, \<open>sendMessage\<close> to a room that is not in
  the membership first emits the join request and adds the room, then emits the
  message; to a room already in the membership it emits the message only.
  \<open>sendCommunityPost\<close> while connected emits the post to the room \<open>community_\<close> followed
  by the community id, and leaves the membership as it was. While the socket is not
  connected both operations return with the service unchanged: nothing is emitted and
  nothing is queued.
\<close>

theorem send_behaviour:
  "(socket_connected s \<and> chatId \<notin> set (activeRooms s) \<longrightarrow>
      sent (sendMessage chatId message s) = sent s @ [JoinChat chatId, SendMessage chatId message] \<and>
      activeRooms (sendMessage chatId message s) = activeRooms s @ [chatId]) \<and>
   (socket_connected s \<and> chatId \<in> set (activeRooms s) \<longrightarrow>
      sent (sendMessage chatId message s) = sent s @ [SendMessage chatId message] \<and>
      activeRooms (sendMessage chatId message s) = activeRooms s) \<and>
   (socket_connected s \<longrightarrow>
      sent (sendCommunityPost communityId post s)
        = sent s @ [SendCommunityPost (''community_'' @ communityId) post] \<and>
      activeRooms (sendCommunityPost communityId post s) = activeRooms s) \<and>
   (\<not> socket_connected s \<longrightarrow>
      sendMessage chatId message s = s \<and> sendCommunityPost communityId post s = s)"
  using sendMessage_not_member [of s chatId message] sendMessage_member [of s chatId message]
    sendCommunityPost_connected [of s communityId post]
  by (simp add: sendMessage_def sendCommunityPost_def)

theorem send_behaviour_witness:
  "socket_connected example_connected \<and> ''chat1'' \<notin> set (activeRooms example_connected) \<and>
   sent (sendMessage ''chat1'' ''hello'' example_connected)
     = sent example_connected @ [JoinChat ''chat1'', SendMessage ''chat1'' ''hello''] \<and>
   activeRooms (sendMessage ''chat1'' ''hello'' example_connected)
     = activeRooms example_connected @ [''chat1''] \<and>
   socket_connected example_service \<and> ''community_abc'' \<in> set (activeRooms example_service) \<and>
   sent (sendMessage ''community_abc'' ''hello'' example_service)
     = sent example_service @ [SendMessage ''community_abc'' ''hello''] \<and>
   activeRooms (sendMessage ''community_abc'' ''hello'' example_service) = activeRooms example_service \<and>
   sent (sendCommunityPost ''abc'' example_post example_connected)
     = sent example_connected @ [SendCommunityPost (''community_'' @ ''abc'') example_post] \<and>
   activeRooms (sendCommunityPost ''abc'' example_post example_connected)
     = activeRooms example_connected \<and>
   \<not> socket_connected new_SocketService \<and>
   sendMessage ''chat1'' ''hello'' new_SocketService = new_SocketService \<and>
   sendCommunityPost ''abc'' example_post new_SocketService = new_SocketService"
proof -
  have c: "socket_connected example_connected \<and> ''chat1'' \<notin> set (activeRooms example_connected)"
    by (simp add: example_connected_eval socket_connected_def)
  have m: "socket_connected example_service \<and> ''community_abc'' \<in> set (activeRooms example_service)"
    by (simp add: example_service_eval socket_connected_def)
  have n: "\<not> socket_connected new_SocketService"
    by (simp add: new_SocketService_def socket_connected_def)
  show ?thesis
    using c m n
      send_behaviour [of example_connected "''chat1''" "''hello''" "''abc''" example_post]
      send_behaviour [of example_service "''community_abc''" "''hello''" "''abc''" example_post]
      send_behaviour [of new_SocketService "''chat1''" "''hello''" "''abc''" example_post]
    by blast
qed

text \<open>
  C7, on the code. The \<open>connect\<close> listener emits no join request, whatever the
  membership: every \<open>joinChat\<close> it calls returns at the test for a room that is already
  active. On the service that has joined \<open>community_abc\<close>, a transport loss with reason
  \<open>transport close\<close> sets the reconnect timer; after the timer's \<open>initSocket\<close> and the
  new socket's \<open>connect\<close> the membership is still \<open>community_abc\<close>, and the packets
  emitted are the authentication alone. The same holds when socket.io reconnects the
  old socket. A disconnect with reason \<open>io client disconnect\<close> sets no timer.
\<close>

theorem reconnect_replays_no_join:
  "join_requests (sent (on_connect uid s)) = join_requests (sent s) \<and>
   activeRooms example_service = [''community_abc''] \<and>
   snd (transport_lost ''transport close'' example_service) \<and>
   activeRooms (lose_and_reconnect ''transport close'' example_service) = [''community_abc''] \<and>
   sent (lose_and_reconnect ''transport close'' example_service) = [Authenticate ''alice''] \<and>
   join_requests (sent (lose_and_reconnect ''transport close'' example_service)) = [] \<and>
   sent (transport_connected ''alice'' (fst (transport_lost ''transport close'' example_service)))
     = sent example_service @ [Authenticate ''alice''] \<and>
   \<not> snd (transport_lost ''io client disconnect'' example_service)"
proof -
  have "activeRooms example_service = [''community_abc''] \<and>
   snd (transport_lost ''transport close'' example_service) \<and>
   activeRooms (lose_and_reconnect ''transport close'' example_service) = [''community_abc''] \<and>
   sent (lose_and_reconnect ''transport close'' example_service) = [Authenticate ''alice''] \<and>
   join_requests (sent (lose_and_reconnect ''transport close'' example_service)) = [] \<and>
   sent (transport_connected ''alice'' (fst (transport_lost ''transport close'' example_service)))
     = sent example_service @ [Authenticate ''alice''] \<and>
   \<not> snd (transport_lost ''io client disconnect'' example_service)"
    by (simp add: example_service_eval lose_and_reconnect_def transport_lost_def on_disconnect_def
        reconnect_timer_fired_def initSocket_def socket_disconnect_def transport_connected_def
        on_connect_eq authenticate_def socket_connected_def socket_emit_def sent_def)
  then show ?thesis
    using on_connect_no_join [of uid s] by simp
qed

text \<open>
  C9, on the code. An encrypted \<open>new_message\<close> whose sender is the local user is
  dispatched to the store as \<open>processEncryptedMessage\<close>; the same message without the
  encrypted fields is dropped, and so is a community post of the local user.
\<close>

theorem own_encrypted_message_forwarded:
  "sender_id example_own_encrypted_message = Some ''alice'' \<and>
   senderPublicKey example_own_encrypted_message = Some ''alice'' \<and>
   on_new_message (Some ''alice'') None (Some example_own_encrypted_message)
     = [ProcessEncryptedMessage (Some ''aXY='') (Some ''Y3Q='') (Some ''dGFn'') (Some ''alice'')
          (Some ''chat1'') (Some ''m1'') 3000] \<and>
   on_new_message (Some ''alice'') None (Some (example_own_encrypted_message\<lparr>iv_m := None\<rparr>)) = [] \<and>
   on_community_post_received (Some ''alice'') (Some example_post) example_cache = example_cache"
  by (simp add: example_own_encrypted_message_def on_new_message_def truthy_def
      on_community_post_received_def example_post_def)

text \<open>
  The import of the listener resolves to \<open>src/shared/shared/services/SQLiteService\<close>
  and yields no module, while the specifier of \<open>BackgroundSyncTask.ts\<close> resolves to the
  file; so the listener stores no post, whoever its author is.
\<close>

lemma listener_import_fails:
  "resolve_specifier [''src'', ''shared'', ''services''] [''..'', ''shared'', ''services'', ''SQLiteService'']
     = [''src'', ''shared'', ''shared'', ''services'', ''SQLiteService''] \<and>
   import_SQLiteService [''src'', ''shared'', ''services'']
     [''..'', ''shared'', ''services'', ''SQLiteService''] = None \<and>
   import_SQLiteService [''src'', ''shared'', ''background''] [''..'', ''services'', ''SQLiteService'']
     = Some insertCommunityPost"
  by (simp add: import_SQLiteService_def SQLiteService_module_def)

lemma community_post_never_stored:
  "on_community_post_received currentUserId post db = db"
  using listener_import_fails
  by (simp add: on_community_post_received_def split: option.splits)

section \<open>The instances satisfy the contracts\<close>

lemma char_to_byte_inverse: "char_to_byte (byte_to_char w) = w"
proof -
  have "unat w < 2 ^ LENGTH(8)"
    by (rule unsigned_less)
  then have "unat w mod 256 = unat w"
    by simp
  then show ?thesis
    by (simp add: char_to_byte_def byte_to_char_def)
qed

lemma byte_to_char_inverse: "byte_to_char (char_to_byte c) = c"
  by (simp add: char_to_byte_def byte_to_char_def unat_of_nat)

lemma example_agreement_commutes:
  "length a = length b \<Longrightarrow>
     map2 (\<lambda>P x. P ^ unat x) (example_public b) a = map2 (\<lambda>P x. P ^ unat x) (example_public a) (b :: bytes)"
  by (induction a b rule: list_induct2) (simp_all add: example_public_def power_mult [symmetric] mult.commute)

lemma example_box_keyPair:
  "box_keyPair example_nacl r = \<lparr>publicKey = example_public r, secretKey = r\<rparr>"
  by (simp add: example_nacl_def)

lemma example_valid_key_pair:
  "valid_key_pair example_nacl kp \<longleftrightarrow>
     length (secretKey kp) = 32 \<and> kp = \<lparr>publicKey = example_public (secretKey kp), secretKey = secretKey kp\<rparr>"
  by (auto simp: valid_key_pair_def example_nacl_def)

lemma example_nacl_x25519: "x25519_contract example_nacl"
proof -
  have "\<exists>k. box_before example_nacl (publicKey b) (secretKey a) = Inr k \<and>
             box_before example_nacl (publicKey a) (secretKey b) = Inr k"
    if a: "valid_key_pair example_nacl a" and b: "valid_key_pair example_nacl b" for a b
  proof -
    have la: "length (secretKey a) = 32" and pa: "publicKey a = example_public (secretKey a)"
      using a example_valid_key_pair [of a] by (simp, metis BoxKeyPair.select_convs(1))
    have lb: "length (secretKey b) = 32" and pb: "publicKey b = example_public (secretKey b)"
      using b example_valid_key_pair [of b] by (simp, metis BoxKeyPair.select_convs(1))
    have "map2 (\<lambda>P x. P ^ unat x) (example_public (secretKey b)) (secretKey a)
            = map2 (\<lambda>P x. P ^ unat x) (example_public (secretKey a)) (secretKey b)"
      using la lb by (intro example_agreement_commutes) simp
    then show ?thesis
      using la lb pa pb by (simp add: example_nacl_def example_public_def)
  qed
  then show ?thesis
    unfolding x25519_contract_def by blast
qed



lemma example_webcrypto_contract: "webcrypto_contract example_webcrypto"
  by (simp add: webcrypto_contract_def example_webcrypto_def example_tag_def
      byte_to_char_inverse comp_def)

lemma example_string_decode_contract: "webcrypto_contract example_string_decode"
  using example_webcrypto_contract
  by (simp add: webcrypto_contract_def example_string_decode_def)

lemma example_decode_returns_bytes: "decode_returns_bytes example_webcrypto"
  by (simp add: decode_returns_bytes_def example_webcrypto_def comp_def char_to_byte_inverse)

lemma example_decode_returns_string: "decode_returns_string example_string_decode"
  by (simp add: decode_returns_string_def example_string_decode_def)

section \<open>Properties of the CryptoEngine\<close>

text \<open>
  C8. Key agreement is commutative: when \<open>nacl.box.before\<close> satisfies the X25519
  contract, for all valid key pairs \<open>A\<close> and \<open>B\<close> the secret derived from \<open>A\<close>'s
  private key and \<open>B\<close>'s public key is the secret derived from \<open>B\<close>'s private key and
  \<open>A\<close>'s public key, and the derivation succeeds.
\<close>

theorem key_agreement_commutes:
  assumes "x25519_contract nacl" and "valid_key_pair nacl A" and "valid_key_pair nacl B"
  shows "deriveSharedSecret nacl (secretKey A) (publicKey B)
           = deriveSharedSecret nacl (secretKey B) (publicKey A) \<and>
         (\<exists>k. deriveSharedSecret nacl (secretKey A) (publicKey B) = Inr k)"
proof -
  obtain k where "box_before nacl (publicKey B) (secretKey A) = Inr k"
    and "box_before nacl (publicKey A) (secretKey B) = Inr k"
    using assms unfolding x25519_contract_def by blast
  then show ?thesis
    by (simp add: deriveSharedSecret_def)
qed

lemma example_keys_valid:
  "valid_key_pair example_nacl example_keys_1 \<and> valid_key_pair example_nacl example_keys_2"
  by (simp add: example_valid_key_pair example_keys_1_def example_keys_2_def example_box_keyPair)

theorem key_agreement_commutes_witness:
  "x25519_contract example_nacl \<and>
   valid_key_pair example_nacl example_keys_1 \<and> valid_key_pair example_nacl example_keys_2 \<and>
   deriveSharedSecret example_nacl (secretKey example_keys_1) (publicKey example_keys_2)
     = deriveSharedSecret example_nacl (secretKey example_keys_2) (publicKey example_keys_1) \<and>
   deriveSharedSecret example_nacl (secretKey example_keys_1) (publicKey example_keys_2)
     = Inr (replicate 32 9)"
proof -
  have v: "deriveSharedSecret example_nacl (secretKey example_keys_1) (publicKey example_keys_2)
             = Inr (replicate 32 9)"
    by (simp add: deriveSharedSecret_def example_keys_1_def example_keys_2_def example_nacl_def
        example_public_def)
  show ?thesis
    using v example_nacl_x25519 example_keys_valid
      key_agreement_commutes [of example_nacl example_keys_1 example_keys_2]
    by blast
qed

subsection \<open>The buffer that decrypt assembles\<close>

lemma fullEncrypted_of_bytes:
  "Uint8Array_set (new_Uint8Array (js_plus (byteLength (JsBytes c)) (byteLength (JsBytes t))))
     (JsBytes c) (Some (Num 0)) = Inr (c @ replicate (length t) 0) \<and>
   Uint8Array_set (c @ replicate (length t) 0) (JsBytes t) (byteLength (JsBytes c)) = Inr (c @ t)"
  by (simp add: Uint8Array_set_def new_Uint8Array_def js_plus_def byteLength_def
      replicate_add [symmetric] del: replicate_add)

lemma fullEncrypted_of_strings:
  "new_Uint8Array (js_plus (byteLength (JsString c)) (byteLength (JsString t))) = [] \<and>
   Uint8Array_set [] (JsString c) (Some (Num 0)) = (if c = [] then Inr [] else Inl RangeError) \<and>
   Uint8Array_set [] (JsString t) (byteLength (JsString c)) = (if t = [] then Inr [] else Inl RangeError)"
  by (simp add: Uint8Array_set_def new_Uint8Array_def js_plus_def byteLength_def)

lemma decrypt_of_bytes:
  assumes "base64_decode env (iv e) = JsBytes ivBytes"
    and "base64_decode env (ciphertext e) = JsBytes c"
    and "base64_decode env (tag e) = JsBytes t"
  shows "decrypt env S e =
           (case importKey env S of
              Inl err \<Rightarrow> Inl err
            | Inr key \<Rightarrow>
                (case aes_gcm_decrypt env key ivBytes (c @ t) of
                   Inl err \<Rightarrow> Inl err
                 | Inr decrypted \<Rightarrow> Inr (utf8_decode env decrypted)))"
  using assms fullEncrypted_of_bytes [of c t]
  by (simp add: decrypt_def Let_def split: sum.splits)

lemma decrypt_of_strings:
  assumes "base64_decode env (iv e) = JsString i"
    and "base64_decode env (ciphertext e) = JsString c"
    and "base64_decode env (tag e) = JsString t"
  shows "decrypt env S e =
           (if c \<noteq> [] \<or> t \<noteq> [] then Inl RangeError
            else case importKey env S of Inl err \<Rightarrow> Inl err | Inr key \<Rightarrow> Inl TypeError)"
proof -
  note buffer = fullEncrypted_of_strings [of c t]
  show ?thesis
  proof (cases "c = []")
    case False
    then show ?thesis
      using assms buffer by (simp add: decrypt_def Let_def)
  next
    case c: True
    show ?thesis
    proof (cases "t = []")
      case False
      then show ?thesis
        using assms buffer c by (simp add: decrypt_def Let_def)
    next
      case True
      then show ?thesis
        using assms buffer c by (cases "importKey env S") (simp_all add: decrypt_def Let_def)
    qed
  qed
qed

subsection \<open>With a decode that returns byte arrays\<close>

lemma encrypt_splits:
  assumes "webcrypto_contract env" and "importKey env S = Inr key"
  shows "encrypt env iv0 S P =
           Inr \<lparr>iv = base64_encode env iv0,
                ciphertext = base64_encode env (take (length (utf8_encode env P)) (aes_gcm_encrypt env key iv0 (utf8_encode env P))),
                tag = base64_encode env (drop (length (utf8_encode env P)) (aes_gcm_encrypt env key iv0 (utf8_encode env P)))\<rparr>"
proof -
  have len: "length (aes_gcm_encrypt env key iv0 (utf8_encode env P)) = length (utf8_encode env P) + 16"
    using assms(1) by (simp add: webcrypto_contract_def)
  show ?thesis
    using assms(2) len by (simp add: encrypt_def Let_def)
qed

lemma roundtrip_with_byte_decode:
  assumes "webcrypto_contract env" and "decode_returns_bytes env" and "length S = 32"
  shows "and_then (encrypt env iv0 S P) (decrypt env S) = Inr P \<and>
         (\<exists>e key c t. importKey env S = Inr key \<and> encrypt env iv0 S P = Inr e \<and>
            base64_decode env (ciphertext e) = JsBytes c \<and> base64_decode env (tag e) = JsBytes t \<and>
            c @ t = aes_gcm_encrypt env key iv0 (utf8_encode env P) \<and> length t = 16 \<and>
            decrypt env S e = Inr P)"
proof -
  obtain key where key: "importKey env S = Inr key"
    using assms unfolding webcrypto_contract_def by blast
  let ?c = "aes_gcm_encrypt env key iv0 (utf8_encode env P)"
  let ?n = "length (utf8_encode env P)"
  let ?e = "\<lparr>iv = base64_encode env iv0, ciphertext = base64_encode env (take ?n ?c),
             tag = base64_encode env (drop ?n ?c)\<rparr>"
  have b64: "\<And>b. base64_decode env (base64_encode env b) = JsBytes b"
    using assms(2) by (simp add: decode_returns_bytes_def)
  have dec: "aes_gcm_decrypt env key iv0 ?c = Inr (utf8_encode env P)"
    using assms(1) by (simp add: webcrypto_contract_def)
  have utf: "utf8_decode env (utf8_encode env P) = P"
    using assms(1) by (simp add: webcrypto_contract_def)
  have len: "length ?c = ?n + 16"
    using assms(1) by (simp add: webcrypto_contract_def)
  have enc: "encrypt env iv0 S P = Inr ?e"
    using assms(1) key by (rule encrypt_splits)
  have tag16: "length (drop ?n ?c) = 16"
    using len by simp
  have undo: "decrypt env S ?e = Inr P"
    using decrypt_of_bytes [of env ?e iv0 "take ?n ?c" "drop ?n ?c" S] key dec utf
    by (simp add: b64)
  have parts: "base64_decode env (ciphertext ?e) = JsBytes (take ?n ?c) \<and>
               base64_decode env (tag ?e) = JsBytes (drop ?n ?c) \<and> take ?n ?c @ drop ?n ?c = ?c"
    by (simp add: b64)
  show ?thesis
    using key enc parts tag16 undo by (auto simp: and_then_def)
qed

lemma unverified_tag_rejected_with_byte_decode:
  assumes "tag_does_not_verify env S e"
  shows "decrypt env S e = Inl AuthenticationFailed \<and>
         (is_encrypted ep \<and> envelope ep = e \<and>
          deriveSharedSecret nacl sk (fetchRecipientX25519PublicKey nacl r (sender_id_s ep)) = Inr S
          \<longrightarrow> sync_missed_post nacl env getTime sk r cid ep db = db)"
proof -
  obtain key ivBytes c t where "importKey env S = Inr key"
    and "base64_decode env (iv e) = JsBytes ivBytes"
    and "base64_decode env (ciphertext e) = JsBytes c"
    and "base64_decode env (tag e) = JsBytes t"
    and "aes_gcm_decrypt env key ivBytes (c @ t) = Inl AuthenticationFailed"
    using assms by (cases "importKey env S") (auto simp: tag_does_not_verify_def)
  then have "decrypt env S e = Inl AuthenticationFailed"
    using decrypt_of_bytes [of env e ivBytes c t S] by simp
  then show ?thesis
    by (simp add: sync_missed_post_def Let_def)
qed

lemma example_secret_length: "length example_secret = 32"
  by (simp add: example_secret_def)

lemma example_importKey: "importKey example_webcrypto example_secret = Inr example_secret"
  by (simp add: example_webcrypto_def example_secret_def)

lemma example_envelope_eval:
  "example_envelope =
     \<lparr>iv = map byte_to_char example_iv,
      ciphertext = map byte_to_char (map (\<lambda>b. b + 1) (map char_to_byte ''gm'')),
      tag = map byte_to_char (example_tag example_secret example_iv (map char_to_byte ''gm''))\<rparr>"
  using encrypt_splits [OF example_webcrypto_contract example_importKey, of example_iv "''gm''"]
  by (simp add: example_envelope_def) (simp add: example_webcrypto_def)

lemma encrypt_ignores_decode:
  "encrypt (env\<lparr>base64_decode := d\<rparr>) iv0 S P = encrypt env iv0 S P"
  by (cases "importKey env S") (simp_all add: encrypt_def Let_def)

lemma example_encrypts:
  "encrypt example_webcrypto example_iv example_secret ''gm'' = Inr example_envelope \<and>
   encrypt example_string_decode example_iv example_secret ''gm'' = Inr example_envelope"
proof -
  obtain e where e: "encrypt example_webcrypto example_iv example_secret ''gm'' = Inr e"
    using roundtrip_with_byte_decode [OF example_webcrypto_contract example_decode_returns_bytes
        example_secret_length] by blast
  have "encrypt example_string_decode example_iv example_secret ''gm''
          = encrypt example_webcrypto example_iv example_secret ''gm''"
    by (simp add: example_string_decode_def encrypt_ignores_decode)
  then show ?thesis
    using e by (simp add: example_envelope_def)
qed

lemma example_envelope_decrypts:
  "decrypt example_webcrypto example_secret example_envelope = Inr ''gm''"
  using roundtrip_with_byte_decode [OF example_webcrypto_contract example_decode_returns_bytes
      example_secret_length, of example_iv "''gm''"] example_encrypts
  by auto

lemma example_checksum: "sum_list (example_secret @ example_iv @ map char_to_byte ''gm'') = 96"
  by (simp add: example_secret_def example_iv_def char_to_byte_def sum_list_replicate)

lemma example_tampered_eval:
  "example_tampered =
     \<lparr>iv = map byte_to_char example_iv,
      ciphertext = map byte_to_char (map (\<lambda>b. b + 1) (map char_to_byte ''gm'')),
      tag = map byte_to_char (replicate 16 0)\<rparr>"
  by (simp add: example_tampered_def example_envelope_eval) (simp add: example_webcrypto_def)

lemma example_tampered_fails: "tag_does_not_verify example_webcrypto example_secret example_tampered"
  using example_checksum
  by (simp add: tag_does_not_verify_def example_importKey example_tampered_eval)
     (simp add: example_webcrypto_def example_tag_def comp_def char_to_byte_inverse)

lemma example_tags_differ: "tag example_tampered \<noteq> tag example_envelope"
proof
  assume "tag example_tampered = tag example_envelope"
  then have "map char_to_byte (tag example_tampered) = map char_to_byte (tag example_envelope)"
    by simp
  then show False
    using example_checksum
    by (simp add: example_tampered_eval example_envelope_eval example_tag_def comp_def
        char_to_byte_inverse)
qed

subsection \<open>With a decode that returns strings\<close>

lemma decrypt_with_string_decode:
  assumes "decode_returns_string env"
  shows "\<exists>c t. base64_decode env (ciphertext e) = JsString c \<and>
               base64_decode env (tag e) = JsString t \<and>
               decrypt env S e =
                 (if c \<noteq> [] \<or> t \<noteq> [] then Inl RangeError
                  else case importKey env S of Inl err \<Rightarrow> Inl err | Inr key \<Rightarrow> Inl TypeError)"
proof -
  obtain i where i: "base64_decode env (iv e) = JsString i"
    using assms unfolding decode_returns_string_def by blast
  obtain c where c: "base64_decode env (ciphertext e) = JsString c"
    using assms unfolding decode_returns_string_def by blast
  obtain t where t: "base64_decode env (tag e) = JsString t"
    using assms unfolding decode_returns_string_def by blast
  show ?thesis
    using decrypt_of_strings [OF i c t, of S] c t by blast
qed

lemma decrypt_with_string_decode_fails:
  assumes "decode_returns_string env"
  shows "\<exists>err. decrypt env S e = Inl err"
proof -
  obtain c t :: string where "decrypt env S e =
      (if c \<noteq> [] \<or> t \<noteq> [] then Inl RangeError
       else case importKey env S of Inl err \<Rightarrow> Inl err | Inr key \<Rightarrow> Inl TypeError)"
    using decrypt_with_string_decode [OF assms, of e S] by blast
  then show ?thesis
    by (cases "importKey env S") (auto split: if_splits)
qed

text \<open>
  C2, on the code. js-base64 declares that \<open>decode\<close> returns a string. With such a
  \<open>decode\<close>, \<open>decrypt\<close> returns no plaintext for any secret and any envelope, so
  decrypting what \<open>encrypt\<close> produced does not give the plaintext back: a string has no
  \<open>byteLength\<close>, the buffer \<open>fullEncrypted\<close> has length 0, and \<open>set\<close> raises \<open>RangeError\<close>
  unless the string is empty.
\<close>

theorem roundtrip_fails_with_string_decode:
  assumes "decode_returns_string env"
  shows "(\<exists>err. decrypt env S e = Inl err) \<and>
         and_then (encrypt env iv0 S P) (decrypt env S) \<noteq> Inr P"
proof -
  have never: "\<And>e. \<exists>err. decrypt env S e = Inl err"
    using assms by (rule decrypt_with_string_decode_fails)
  have "and_then (encrypt env iv0 S P) (decrypt env S) \<noteq> Inr P"
  proof (cases "encrypt env iv0 S P")
    case (Inl err)
    then show ?thesis by (simp add: and_then_def)
  next
    case (Inr e)
    then show ?thesis using never [of e] by (auto simp: and_then_def)
  qed
  then show ?thesis
    using never by simp
qed

lemma example_string_decode_envelope:
  "decrypt example_string_decode example_secret example_envelope = Inl RangeError \<and>
   decrypt example_string_decode example_secret example_tampered = Inl RangeError"
proof -
  have e: "decrypt example_string_decode example_secret example_envelope = Inl RangeError"
    using decrypt_of_strings [of example_string_decode example_envelope "iv example_envelope"
        "ciphertext example_envelope" "tag example_envelope" example_secret]
    by (simp add: example_string_decode_def) (simp add: example_envelope_eval example_tag_def)
  have t: "decrypt example_string_decode example_secret example_tampered = Inl RangeError"
    using decrypt_of_strings [of example_string_decode example_tampered "iv example_tampered"
        "ciphertext example_tampered" "tag example_tampered" example_secret]
    by (simp add: example_string_decode_def) (simp add: example_tampered_eval)
  show ?thesis
    using e t by simp
qed

theorem roundtrip_fails_with_string_decode_witness:
  "decode_returns_string example_string_decode \<and>
   encrypt example_string_decode example_iv example_secret ''gm'' = Inr example_envelope \<and>
   decrypt example_string_decode example_secret example_envelope = Inl RangeError \<and>
   and_then (encrypt example_string_decode example_iv example_secret ''gm'')
     (decrypt example_string_decode example_secret) \<noteq> Inr ''gm'' \<and>
   decrypt example_webcrypto example_secret example_envelope = Inr ''gm''"
  using example_decode_returns_string example_encrypts example_string_decode_envelope
    example_envelope_decrypts
    roundtrip_fails_with_string_decode [OF example_decode_returns_string,
      of example_secret example_envelope example_iv "''gm''"]
  by simp

text \<open>
  C1, on the code. With a \<open>decode\<close> that returns strings, as js-base64 declares,
  \<open>decrypt\<close> of an envelope whose tag does not decode to the empty string raises
  \<open>RangeError\<close> when it fills the buffer: the failure is not \<open>AuthenticationFailed\<close>,
  the tag is never verified. No plaintext is returned, and an encrypted item of a
  catch-up batch that carries the envelope leaves the cache as it was.
\<close>

theorem unverified_tag_raises_range_error:
  assumes "decode_returns_string env" and "base64_decode env (tag e) \<noteq> JsString []"
  shows "decrypt env S e = Inl RangeError \<and>
         decrypt env S e \<noteq> Inl AuthenticationFailed \<and>
         (\<nexists>plaintext. decrypt env S e = Inr plaintext) \<and>
         (is_encrypted ep \<and> envelope ep = e \<longrightarrow>
            sync_missed_post nacl env getTime sk r cid ep db = db)"
proof -
  have fails: "decrypt env S' e = Inl RangeError" for S'
  proof -
    obtain c t :: string where t: "base64_decode env (tag e) = JsString t"
      and d: "decrypt env S' e =
        (if c \<noteq> [] \<or> t \<noteq> [] then Inl RangeError
         else case importKey env S' of Inl err \<Rightarrow> Inl err | Inr key \<Rightarrow> Inl TypeError)"
      using decrypt_with_string_decode [OF assms(1), of e S'] by blast
    have "t \<noteq> []"
      using t assms(2) by auto
    then show ?thesis
      using d by simp
  qed
  have "sync_missed_post nacl env getTime sk r cid ep db = db" if "is_encrypted ep" and "envelope ep = e"
    using that fails
    by (cases "deriveSharedSecret nacl sk (fetchRecipientX25519PublicKey nacl r (sender_id_s ep))")
       (simp_all add: sync_missed_post_def Let_def)
  then show ?thesis
    using fails [of S] by simp
qed

theorem unverified_tag_raises_range_error_witness:
  "decode_returns_string example_string_decode \<and>
   base64_decode example_string_decode (tag example_tampered) \<noteq> JsString [] \<and>
   tag example_tampered \<noteq> tag example_envelope \<and>
   example_tampered\<lparr>tag := tag example_envelope\<rparr> = example_envelope \<and>
   decrypt example_string_decode example_secret example_tampered = Inl RangeError \<and>
   decrypt example_string_decode example_secret example_tampered \<noteq> Inl AuthenticationFailed \<and>
   is_encrypted example_missed_post \<and> envelope example_missed_post = example_tampered \<and>
   sync_missed_post example_nacl example_string_decode example_getTime (replicate 32 1) (replicate 32 0)
     ''c1'' example_missed_post example_cache = example_cache \<and>
   decrypt example_webcrypto example_secret example_tampered = Inl AuthenticationFailed"
proof -
  have n: "base64_decode example_string_decode (tag example_tampered) \<noteq> JsString []"
    by (simp add: example_string_decode_def example_tampered_eval)
  have e: "is_encrypted example_missed_post \<and> envelope example_missed_post = example_tampered"
    by (simp add: example_missed_post_def envelope_def)
  have u: "example_tampered\<lparr>tag := tag example_envelope\<rparr> = example_envelope"
    by (simp add: example_tampered_def)
  have b: "decrypt example_webcrypto example_secret example_tampered = Inl AuthenticationFailed"
    using unverified_tag_rejected_with_byte_decode [OF example_tampered_fails] by simp
  show ?thesis
    using n e u b example_decode_returns_string example_tags_differ
      unverified_tag_raises_range_error [OF example_decode_returns_string n,
        of example_secret example_missed_post example_nacl example_getTime "replicate 32 1" "replicate 32 0"
        "''c1''" example_cache]
    by simp
qed

section \<open>Properties of the SyncReconciler\<close>

text \<open>
  The task as it is written never sends a request. The test of the undeclared
  identifier raises \<open>ReferenceError\<close>, the outer \<open>catch\<close> logs it, and the cache after a
  run is the cache \<open>initDb\<close> leaves; the body of the loop over the communities would stop
  at its own read of the identifier.
\<close>

lemma sync_community_stores_nothing:
  "sync_community nacl env getTime Buffer_from fetch secureStore rnd communityId db = db"
  by (simp add: sync_community_def currentSeekerPublicKeyBase558_def split: sum.splits)

lemma background_sync_task_stops:
  "background_sync_task nacl env getTime Buffer_from fetch secureStore rnd error_given file db
     = (if error_given then db else initDb file db)"
  by (simp add: background_sync_task_def currentSeekerPublicKeyBase558_def Let_def)

section \<open>Properties of the KeyStore\<close>







lemma without_util_no_key_pair:
  assumes "util nacl = None"
  shows "initializeSeekerKeyPair nacl (Some ident) rnd store = (Some (Inl TypeError), store)"
proof -
  have "util_encodeBase64 nacl b = Inl TypeError" and "util_decodeBase64 nacl t = Inl TypeError" for b t
    using assms by (simp_all add: util_encodeBase64_def util_decodeBase64_def)
  then show ?thesis
    by (simp add: initializeSeekerKeyPair_def loadOrGenerate_def Let_def split: option.splits)
qed



end
